theory Spec2Isabelle
  imports Complex_Main "HOL-Library.Multiset" "HOL-Library.Signed_Division"
begin

section \<open>Data model of Project.cpp\<close>

text \<open>
  The embedding follows \<^verbatim>\<open>src/Code/Project.cpp\<close>. In the model of the patients and of
  the scheduler a C++ \<^verbatim>\<open>double\<close> is a \<^typ>\<open>real\<close>: comparisons are exact and the
  arithmetic is the ideal one, without rounding, NaN or infinities. The results on the
  scheduler use the arithmetic only through comparisons with constants, through the verdicts
  of the functions, or at inputs of small whole numbers, where the rounding of binary64
  changes no verdict. The two
  functions whose verdict the rounding decides, \<^verbatim>\<open>detectTrend\<close> and
  \<^verbatim>\<open>isLikelyFalseAlarm\<close>, are embedded a second time over binary64 numbers with the rounding
  of every operation (section Binary64 arithmetic), and what is proved of their arithmetic
  is proved of that embedding. \<^verbatim>\<open>int\<close> and \<^verbatim>\<open>long\<close> are \<^typ>\<open>int\<close> (the counters and
  identifiers of this program stay far from the machine bounds). A
  \<^verbatim>\<open>system_clock::time_point\<close> is the integer number of clock ticks since the epoch; every
  call of \<^verbatim>\<open>system_clock::now()\<close> is an explicit argument of the function that makes it.
\<close>

datatype Priority = CRITICAL | HIGH | MEDIUM | LOW

text \<open>The enumerators' values: \<^verbatim>\<open>CRITICAL = 1, HIGH = 2, MEDIUM = 3, LOW = 4\<close>.\<close>

fun priority_value :: "Priority \<Rightarrow> int" where
  "priority_value CRITICAL = 1"
| "priority_value HIGH = 2"
| "priority_value MEDIUM = 3"
| "priority_value LOW = 4"

datatype VitalSign =
  HEART_RATE | BLOOD_PRESSURE | OXYGEN_SATURATION | TEMPERATURE | RESPIRATORY_RATE

type_synonym time_point = int

record VitalReading =
  r_type :: VitalSign
  r_value :: real
  r_timestamp :: time_point
  r_patientId :: int

text \<open>
  The constructor of \<^verbatim>\<open>VitalReading\<close>; \<open>now\<close> is what \<^verbatim>\<open>system_clock::now()\<close> returns
  in it.
\<close>

definition VitalReading_ctor :: "time_point \<Rightarrow> VitalSign \<Rightarrow> real \<Rightarrow> int \<Rightarrow> VitalReading" where
  "VitalReading_ctor now t v pid = \<lparr>r_type = t, r_value = v, r_timestamp = now, r_patientId = pid\<rparr>"

record Alert =
  a_patientId :: int
  a_priority :: Priority
  a_message :: string
  a_relatedVital :: VitalSign
  a_createdAt :: time_point
  a_acknowledged :: bool

text \<open>The constructor of \<^verbatim>\<open>Alert\<close>; \<open>now\<close> is what \<^verbatim>\<open>system_clock::now()\<close> returns in it.\<close>

definition Alert_ctor :: "time_point \<Rightarrow> int \<Rightarrow> Priority \<Rightarrow> string \<Rightarrow> VitalSign \<Rightarrow> Alert" where
  "Alert_ctor now pid p msg vital =
     \<lparr>a_patientId = pid, a_priority = p, a_message = msg, a_relatedVital = vital,
      a_createdAt = now, a_acknowledged = False\<rparr>"

text \<open>
  \<^verbatim>\<open>class Patient\<close>. The two \<^verbatim>\<open>std::map\<close>s are only read and written through
  \<^verbatim>\<open>operator[]\<close>, which creates an absent entry with the default value: they are total
  functions, an absent history being the empty vector.
\<close>

record Patient =
  p_patientId :: int
  p_name :: string
  p_age :: int
  vitalHistory :: "VitalSign \<Rightarrow> VitalReading list"
  normalRanges :: "VitalSign \<Rightarrow> real \<times> real"
  currentRiskLevel :: Priority

fun initializeNormalRanges :: "VitalSign \<Rightarrow> real \<times> real" where
  "initializeNormalRanges HEART_RATE = (60, 100)"
| "initializeNormalRanges BLOOD_PRESSURE = (90, 140)"
| "initializeNormalRanges OXYGEN_SATURATION = (95, 100)"
| "initializeNormalRanges TEMPERATURE = (36.1, 37.2)"
| "initializeNormalRanges RESPIRATORY_RATE = (12, 20)"

definition Patient_ctor :: "int \<Rightarrow> string \<Rightarrow> int \<Rightarrow> Patient" where
  "Patient_ctor pid patientName patientAge =
     \<lparr>p_patientId = pid, p_name = patientName, p_age = patientAge,
      vitalHistory = (\<lambda>_. []), normalRanges = initializeNormalRanges,
      currentRiskLevel = LOW\<rparr>"

section \<open>Patient\<close>

text \<open>
  \<^verbatim>\<open>Patient::addVitalReading\<close>: \<^verbatim>\<open>push_back\<close>, then one \<^verbatim>\<open>erase(begin())\<close> when the size
  exceeds 100.
\<close>

definition addVitalReading :: "VitalReading \<Rightarrow> Patient \<Rightarrow> Patient" where
  "addVitalReading reading p =
     (let pushed = vitalHistory p (r_type reading) @ [reading];
          kept = (if length pushed > 100 then tl pushed else pushed)
      in p\<lparr>vitalHistory := (vitalHistory p)(r_type reading := kept)\<rparr>)"

text \<open>
  The vital-specific chain of \<^verbatim>\<open>Patient::assessRisk\<close>: \<open>Some\<close> where a branch returns,
  \<open>None\<close> where control falls through to the normal range check.
\<close>

fun vital_band :: "VitalSign \<Rightarrow> real \<Rightarrow> Priority option" where
  "vital_band HEART_RATE v =
     (if v < 30 \<or> v > 180 then Some CRITICAL
      else if v < 50 \<or> v > 120 then Some HIGH else None)"
| "vital_band OXYGEN_SATURATION v =
     (if v < 85 then Some CRITICAL
      else if v < 92 then Some HIGH else None)"
| "vital_band BLOOD_PRESSURE v =
     (if v < 60 \<or> v > 200 then Some CRITICAL
      else if v < 80 \<or> v > 160 then Some HIGH else None)"
| "vital_band TEMPERATURE v =
     (if v < 35.0 \<or> v > 39.0 then Some HIGH
      else if v < 35.5 \<or> v > 38.5 then Some MEDIUM else None)"
| "vital_band RESPIRATORY_RATE v =
     (if v < 8 \<or> v > 30 then Some HIGH
      else if v < 10 \<or> v > 25 then Some MEDIUM else None)"

definition assessRisk :: "Patient \<Rightarrow> VitalReading \<Rightarrow> Priority" where
  "assessRisk p reading =
     (let range = normalRanges p (r_type reading);
          v = r_value reading
      in case vital_band (r_type reading) v of
           Some risk \<Rightarrow> risk
         | None \<Rightarrow> if v < fst range \<or> v > snd range then MEDIUM else LOW)"

text \<open>
  \<^verbatim>\<open>Patient::detectTrend\<close>. The loop runs \<open>i\<close> over the last four indices and adds
  \<^verbatim>\<open>history[i].value - history[i-1].value\<close> to \<open>sum\<close>, which starts at 0.
\<close>

definition detectTrend :: "Patient \<Rightarrow> VitalSign \<Rightarrow> bool" where
  "detectTrend p vital =
     (let history = vitalHistory p vital in
      if length history < 5 then False
      else
        let sum = fold (\<lambda>i s. s + (r_value (history ! i) - r_value (history ! (i - 1))))
                    [length history - 4 ..< length history] 0;
            avgChange = sum / 4.0
        in \<bar>avgChange\<bar> > 2.0)"

text \<open>\<^verbatim>\<open>Patient::getRecentReadings\<close>; \<open>cnt\<close> is its parameter \<^verbatim>\<open>count\<close> (10 by default).\<close>

definition getRecentReadings :: "Patient \<Rightarrow> VitalSign \<Rightarrow> int \<Rightarrow> VitalReading list" where
  "getRecentReadings p vital cnt =
     (let history = vitalHistory p vital in
      if history = [] then []
      else
        let start = max 0 (int (length history) - cnt)
        in drop (nat start) history)"

section \<open>FalseAlarmDetector\<close>

definition calculateMean :: "VitalReading list \<Rightarrow> real" where
  "calculateMean readings =
     fold (\<lambda>reading sum. sum + r_value reading) readings 0.0 / real (length readings)"

definition calculateStandardDeviation :: "VitalReading list \<Rightarrow> real \<Rightarrow> real" where
  "calculateStandardDeviation readings mean =
     sqrt (fold (\<lambda>reading variance. variance + (r_value reading - mean) ^ 2) readings 0.0
           / real (length readings))"

definition isLikelyFalseAlarm :: "Alert \<Rightarrow> VitalReading list \<Rightarrow> bool" where
  "isLikelyFalseAlarm alert recentReadings =
     (if length recentReadings < 5 then False
      else
        let mean = calculateMean recentReadings;
            stdDev = calculateStandardDeviation recentReadings mean
        in if stdDev = 0 then False
           else
             let currentValue = r_value (last recentReadings);
                 zScore = \<bar>(currentValue - mean) / stdDev\<bar>;
                 threshold = (if a_priority alert = CRITICAL then 2.5 else 1.5)
             in zScore < threshold)"

section \<open>Binary64 arithmetic\<close>

text \<open>
  The numbers of IEEE 754 binary64, the \<^verbatim>\<open>double\<close> of the program: the finite ones by their
  value, the two infinities and NaN. The two zeros are one value: the functions embedded
  below never divide by a zero (\<^verbatim>\<open>isLikelyFalseAlarm\<close> returns before it would), and no
  other operation they use tells the zeros apart.
\<close>

datatype double = Finite real | PlusInfinity | MinusInfinity | NaN

text \<open>
  The nearest integer, ties to the even one.
\<close>

definition round_to_even :: "real \<Rightarrow> int" where
  "round_to_even x =
     (let f = \<lfloor>x\<rfloor>; d = x - of_int f
      in if d < 1 / 2 then f else if 1 / 2 < d then f + 1 else if even f then f else f + 1)"

text \<open>
  The same on a fraction \<open>p / q\<close> with \<open>q > 0\<close>, by integer arithmetic.
\<close>

definition round_fraction :: "int \<Rightarrow> int \<Rightarrow> int" where
  "round_fraction p q =
     (let f = p div q; r = p mod q
      in if 2 * r < q then f else if q < 2 * r then f + 1 else if even f then f else f + 1)"

text \<open>
  The exponent of the unit in the last place of a magnitude \<open>a\<close>: the least \<open>k\<close> from
  \<open>-1074\<close> on with \<open>a < 2\<^sup>k\<^sup>+\<^sup>5\<^sup>3\<close> (53 significant bits; below \<open>2\<^sup>-\<^sup>1\<^sup>0\<^sup>2\<^sup>2\<close> the spacing is
  \<open>2\<^sup>-\<^sup>1\<^sup>0\<^sup>7\<^sup>4\<close>), and 971, the exponent of the last binade, from there on.
\<close>

function ulp_from :: "int \<Rightarrow> real \<Rightarrow> int" where
  "ulp_from k a = (if 971 \<le> k \<or> a < 2 powi (k + 53) then k else ulp_from (k + 1) a)"
  by pat_completeness auto

termination
  by (relation "measure (\<lambda>(k, a). nat (971 - k))") auto

declare ulp_from.simps [simp del]

definition ulp_exponent :: "real \<Rightarrow> int" where
  "ulp_exponent a = ulp_from (- 1074) a"

text \<open>
  Rounding to nearest, ties to even, the rounding of every operation of the program
  (the default mode; no operation is fused or kept in a wider format): the magnitude is
  rounded to a multiple of its unit in the last place, and a result of magnitude
  \<open>2\<^sup>1\<^sup>0\<^sup>2\<^sup>4\<close>, beyond the largest finite number, is an infinity.
\<close>

definition nearest64 :: "real \<Rightarrow> real" where
  "nearest64 a =
     (let k = ulp_exponent a
      in of_int (round_to_even (a / 2 powi k)) * 2 powi k)"

definition round64 :: "real \<Rightarrow> double" where
  "round64 r =
     (if r = 0 then Finite 0
      else if 2 ^ 1024 \<le> nearest64 \<bar>r\<bar>
      then (if 0 < r then PlusInfinity else MinusInfinity)
      else Finite (sgn r * nearest64 \<bar>r\<bar>))"

text \<open>
  Negation, addition, subtraction, division, absolute value, the comparisons \<^verbatim>\<open><\<close> and
  \<^verbatim>\<open>==\<close>, \<^verbatim>\<open>std::sqrt\<close> and \<^verbatim>\<open>std::pow(x, 2)\<close>, with the special cases of IEEE 754. The
  square root is correctly rounded, as the standard requires; \<^verbatim>\<open>std::pow(x, 2)\<close> is taken
  as the correctly rounded product \<open>x * x\<close>, which is what the call gives when the compiler
  expands it.
\<close>

fun dneg :: "double \<Rightarrow> double" where
  "dneg (Finite x) = Finite (- x)"
| "dneg PlusInfinity = MinusInfinity"
| "dneg MinusInfinity = PlusInfinity"
| "dneg NaN = NaN"

fun dadd :: "double \<Rightarrow> double \<Rightarrow> double" where
  "dadd NaN _ = NaN"
| "dadd _ NaN = NaN"
| "dadd PlusInfinity MinusInfinity = NaN"
| "dadd MinusInfinity PlusInfinity = NaN"
| "dadd PlusInfinity _ = PlusInfinity"
| "dadd _ PlusInfinity = PlusInfinity"
| "dadd MinusInfinity _ = MinusInfinity"
| "dadd _ MinusInfinity = MinusInfinity"
| "dadd (Finite x) (Finite y) = round64 (x + y)"

definition dsub :: "double \<Rightarrow> double \<Rightarrow> double" where
  "dsub a b = dadd a (dneg b)"

fun ddiv :: "double \<Rightarrow> double \<Rightarrow> double" where
  "ddiv NaN _ = NaN"
| "ddiv _ NaN = NaN"
| "ddiv (Finite x) (Finite y) =
     (if y = 0 then (if x = 0 then NaN else if 0 < x then PlusInfinity else MinusInfinity)
      else round64 (x / y))"
| "ddiv (Finite x) _ = Finite 0"
| "ddiv PlusInfinity (Finite y) = (if 0 \<le> y then PlusInfinity else MinusInfinity)"
| "ddiv MinusInfinity (Finite y) = (if 0 \<le> y then MinusInfinity else PlusInfinity)"
| "ddiv _ _ = NaN"

fun dabs :: "double \<Rightarrow> double" where
  "dabs (Finite x) = Finite \<bar>x\<bar>"
| "dabs PlusInfinity = PlusInfinity"
| "dabs MinusInfinity = PlusInfinity"
| "dabs NaN = NaN"

fun dless :: "double \<Rightarrow> double \<Rightarrow> bool" where
  "dless NaN _ = False"
| "dless _ NaN = False"
| "dless (Finite x) (Finite y) = (x < y)"
| "dless _ MinusInfinity = False"
| "dless MinusInfinity _ = True"
| "dless PlusInfinity _ = False"
| "dless _ PlusInfinity = True"




text \<open>
  \<^verbatim>\<open>Patient::detectTrend\<close> on the values of the readings of a history window, in binary64:
  the same loop, every operation rounded. The constants 0, 4.0 and 2.0 are binary64
  numbers.
\<close>

definition detectTrend_b64 :: "double list \<Rightarrow> bool" where
  "detectTrend_b64 history =
     (if length history < 5 then False
      else
        let sum = fold (\<lambda>i s. dadd s (dsub (history ! i) (history ! (i - 1))))
                    [length history - 4 ..< length history] (Finite 0);
            avgChange = ddiv sum (Finite 4)
        in dless (Finite 2) (dabs avgChange))"




section \<open>AlertComparator and the alert queue\<close>

text \<open>
  \<^verbatim>\<open>AlertComparator::operator()\<close>. The enumerators of \<^verbatim>\<open>Priority\<close> compare by their
  values.
\<close>

definition AlertComparator :: "Alert \<Rightarrow> Alert \<Rightarrow> bool" where
  "AlertComparator a b =
     (if a_priority a \<noteq> a_priority b
      then priority_value (a_priority a) > priority_value (a_priority b)
      else a_createdAt a > a_createdAt b)"

text \<open>
  \<^verbatim>\<open>alertQueue\<close> is a \<^verbatim>\<open>std::priority_queue\<close> with this comparator. The container is
  library code; it is modelled by what the C++ standard says of it. The state of the queue
  is the collection of the queued alerts, kept as a list in the order of the pushes.
  \<^verbatim>\<open>top()\<close> is a queued element that the comparator puts before no queued element;
  \<^verbatim>\<open>pop()\<close> removes it. Which of several equivalent elements is on top depends on the
  library, so taking the top is a relation.
\<close>

definition is_top :: "Alert list \<Rightarrow> Alert \<Rightarrow> bool" where
  "is_top q a = (a \<in> set q \<and> (\<forall>b \<in> set q. \<not> AlertComparator a b))"

section \<open>AlertProcessor\<close>

text \<open>
  What the program writes to \<^verbatim>\<open>std::cout\<close> while it handles readings and alerts, one
  event per message: \<open>Handled alert ms ok\<close> is the line of \<^verbatim>\<open>handleAlert\<close> for \<open>alert\<close>
  (its priority, patient and message, the response time \<open>ms\<close> and the mark for
  \<open>withinTimeRequirement\<close>) followed by the line of the handler of its priority;
  \<open>FalseAlarmFiltered pid message\<close> is the line \<^verbatim>\<open>[FALSE ALARM FILTERED] Patient pid: message\<close>.
  The time of day that \<^verbatim>\<open>getCurrentTimeString\<close> prints is left out.
\<close>

datatype Event =
  Handled Alert int bool
| FalseAlarmFiltered int string

record AlertProcessor =
  alertQueue :: "Alert list"
  totalAlertsProcessed :: int
  falseAlarmsFiltered :: int

definition AlertProcessor_ctor :: AlertProcessor where
  "AlertProcessor_ctor = \<lparr>alertQueue = [], totalAlertsProcessed = 0, falseAlarmsFiltered = 0\<rparr>"

definition addAlert :: "Alert \<Rightarrow> AlertProcessor \<Rightarrow> AlertProcessor" where
  "addAlert alert ap = ap\<lparr>alertQueue := alertQueue ap @ [alert]\<rparr>"

definition checkResponseTimeRequirement :: "Priority \<Rightarrow> int \<Rightarrow> bool" where
  "checkResponseTimeRequirement priority responseTimeMs =
     (case priority of
        CRITICAL \<Rightarrow> responseTimeMs \<le> 2000
      | HIGH \<Rightarrow> responseTimeMs \<le> 30000
      | MEDIUM \<Rightarrow> responseTimeMs \<le> 300000
      | LOW \<Rightarrow> responseTimeMs \<le> 3600000)"

text \<open>
  \<^verbatim>\<open>duration_cast<milliseconds>(d).count()\<close> for a duration of \<open>d\<close> clock ticks: the
  integer division of C++, which truncates towards zero. \<open>tpm\<close> is the number of ticks of
  \<^verbatim>\<open>system_clock\<close> in a millisecond, a positive constant of the C++ library.
\<close>

definition duration_cast_ms :: "int \<Rightarrow> int \<Rightarrow> int" where
  "duration_cast_ms tpm d = d sdiv tpm"

definition responseTime :: "int \<Rightarrow> time_point \<Rightarrow> Alert \<Rightarrow> int" where
  "responseTime tpm now alert = duration_cast_ms tpm (now - a_createdAt alert)"

text \<open>\<^verbatim>\<open>AlertProcessor::handleAlert\<close>, where \<^verbatim>\<open>system_clock::now()\<close> returns \<open>now\<close>.\<close>

definition handleAlert :: "int \<Rightarrow> time_point \<Rightarrow> Alert \<Rightarrow> Event list" where
  "handleAlert tpm now alert =
     (let withinTimeRequirement =
            checkResponseTimeRequirement (a_priority alert) (responseTime tpm now alert)
      in [Handled alert (responseTime tpm now alert) withinTimeRequirement])"

text \<open>
  \<^verbatim>\<open>AlertProcessor::processNextAlert\<close> on the processor and the output so far: nothing
  happens on an empty queue; otherwise the top alert is popped and handled and the counter
  of processed alerts grows by one.
\<close>

inductive processNextAlert ::
  "int \<Rightarrow> time_point \<Rightarrow> AlertProcessor \<times> Event list \<Rightarrow> AlertProcessor \<times> Event list \<Rightarrow> bool"
  for tpm :: int and now :: time_point
where
  queue_empty:
    "alertQueue ap = [] \<Longrightarrow> processNextAlert tpm now (ap, out) (ap, out)"
| queue_pop:
    "is_top (alertQueue ap) alert \<Longrightarrow>
     processNextAlert tpm now (ap, out)
       (ap\<lparr>alertQueue := remove1 alert (alertQueue ap),
           totalAlertsProcessed := totalAlertsProcessed ap + 1\<rparr>,
        out @ handleAlert tpm now alert)"

text \<open>
  \<^verbatim>\<open>AlertProcessor::processAllAlerts\<close>: the loop calls \<^verbatim>\<open>processNextAlert\<close> while the queue
  is not empty; each call reads the clock anew.
\<close>

inductive processAllAlerts ::
  "int \<Rightarrow> AlertProcessor \<times> Event list \<Rightarrow> AlertProcessor \<times> Event list \<Rightarrow> bool"
  for tpm :: int
where
  loop_exit:
    "alertQueue ap = [] \<Longrightarrow> processAllAlerts tpm (ap, out) (ap, out)"
| loop_body:
    "alertQueue ap \<noteq> [] \<Longrightarrow> processNextAlert tpm now (ap, out) mid \<Longrightarrow>
     processAllAlerts tpm mid fin \<Longrightarrow> processAllAlerts tpm (ap, out) fin"

section \<open>HospitalScheduler\<close>

record MedicalDevice =
  deviceId :: int
  monitoredVital :: VitalSign
  assignedPatient :: int
  isActive :: bool

definition MedicalDevice_ctor :: "int \<Rightarrow> VitalSign \<Rightarrow> int \<Rightarrow> MedicalDevice" where
  "MedicalDevice_ctor did vital pid =
     \<lparr>deviceId = did, monitoredVital = vital, assignedPatient = pid, isActive = True\<rparr>"

text \<open>
  The scheduler owns the patients (a \<^verbatim>\<open>std::map\<close> searched with \<^verbatim>\<open>find\<close>: a partial map),
  the devices and the alert processor. \<open>console\<close> is the output written so far.
\<close>

record HospitalScheduler =
  patients :: "int \<rightharpoonup> Patient"
  devices :: "MedicalDevice list"
  alertProcessor :: AlertProcessor
  console :: "Event list"

definition HospitalScheduler_ctor :: HospitalScheduler where
  "HospitalScheduler_ctor =
     \<lparr>patients = Map.empty, devices = [], alertProcessor = AlertProcessor_ctor, console = []\<rparr>"

definition createDevicesForPatient :: "int \<Rightarrow> MedicalDevice list \<Rightarrow> MedicalDevice list" where
  "createDevicesForPatient pid ds =
     (let ds1 = ds @ [MedicalDevice_ctor (int (length ds)) HEART_RATE pid];
          ds2 = ds1 @ [MedicalDevice_ctor (int (length ds1)) BLOOD_PRESSURE pid];
          ds3 = ds2 @ [MedicalDevice_ctor (int (length ds2)) OXYGEN_SATURATION pid]
      in ds3 @ [MedicalDevice_ctor (int (length ds3)) TEMPERATURE pid])"

definition addPatient :: "Patient \<Rightarrow> HospitalScheduler \<Rightarrow> HospitalScheduler" where
  "addPatient patient s =
     s\<lparr>patients := (patients s)(p_patientId patient \<mapsto> patient),
       devices := createDevicesForPatient (p_patientId patient) (devices s)\<rparr>"



fun vitalSignToString :: "VitalSign \<Rightarrow> string" where
  "vitalSignToString HEART_RATE = ''Heart Rate''"
| "vitalSignToString BLOOD_PRESSURE = ''Blood Pressure''"
| "vitalSignToString OXYGEN_SATURATION = ''Oxygen Saturation''"
| "vitalSignToString TEMPERATURE = ''Temperature''"
| "vitalSignToString RESPIRATORY_RATE = ''Respiratory Rate''"

text \<open>\<^verbatim>\<open>std::to_string\<close> of an \<^verbatim>\<open>int\<close>: the decimal digits, after a minus sign if negative.\<close>

fun digits_of :: "nat \<Rightarrow> string" where
  "digits_of n =
     (if n < 10 then [''0123456789'' ! n]
      else digits_of (n div 10) @ [''0123456789'' ! (n mod 10)])"

definition to_string :: "int \<Rightarrow> string" where
  "to_string i = (if i < 0 then CHR ''-'' # digits_of (nat (- i)) else digits_of (nat i))"

text \<open>
  \<^verbatim>\<open>static_cast<int>\<close> of a \<^verbatim>\<open>double\<close> drops the fractional part. C++ defines the conversion
  only when the result fits an \<^verbatim>\<open>int\<close>; the model gives the truncated value for every
  argument, and is the source's only for readings between \<open>-2\<^sup>3\<^sup>1\<close> and \<open>2\<^sup>3\<^sup>1\<close>.
\<close>

definition static_cast_int :: "real \<Rightarrow> int" where
  "static_cast_int x = (if 0 \<le> x then \<lfloor>x\<rfloor> else \<lceil>x\<rceil>)"

definition generateAlertMessage :: "VitalReading \<Rightarrow> Priority \<Rightarrow> string" where
  "generateAlertMessage reading priority =
     (let vital = vitalSignToString (r_type reading)
      in vital @ '' reading: '' @ to_string (static_cast_int (r_value reading))
         @ '' (Priority: '' @ to_string (priority_value priority) @ '')'')"

text \<open>
  \<^verbatim>\<open>HospitalScheduler::processVitalReading\<close>. \<open>t_alert\<close> and \<open>t_trend\<close> are the clock
  readings taken by the constructors of the two alerts the function may create.
\<close>

definition processVitalReading ::
  "time_point \<Rightarrow> time_point \<Rightarrow> VitalReading \<Rightarrow> HospitalScheduler \<Rightarrow> HospitalScheduler" where
  "processVitalReading t_alert t_trend reading s =
     (case patients s (r_patientId reading) of
        None \<Rightarrow> s
      | Some found \<Rightarrow>
          let patient = addVitalReading reading found;
              risk = assessRisk patient reading;
              (ap1, out1) =
                (if risk \<noteq> LOW then
                   let message = generateAlertMessage reading risk;
                       alert = Alert_ctor t_alert (r_patientId reading) risk message (r_type reading);
                       recentReadings = getRecentReadings patient (r_type reading) 10
                   in if \<not> isLikelyFalseAlarm alert recentReadings
                      then (addAlert alert (alertProcessor s), console s)
                      else (alertProcessor s,
                            console s @ [FalseAlarmFiltered (r_patientId reading) message])
                 else (alertProcessor s, console s));
              ap2 =
                (if detectTrend patient (r_type reading) then
                   let trendMessage =
                         ''Concerning trend detected in '' @ vitalSignToString (r_type reading);
                       trendAlert =
                         Alert_ctor t_trend (r_patientId reading) MEDIUM trendMessage (r_type reading)
                   in addAlert trendAlert ap1
                 else ap1)
          in s\<lparr>patients := (patients s)(r_patientId reading \<mapsto> patient),
               alertProcessor := ap2, console := out1\<rparr>)"

text \<open>
  The states the program can be in: a new scheduler, then any sequence of \<^verbatim>\<open>addPatient\<close>
  with a newly constructed patient, \<^verbatim>\<open>processVitalReading\<close> and \<^verbatim>\<open>processNextAlert\<close>.
\<close>

inductive reachable :: "int \<Rightarrow> HospitalScheduler \<Rightarrow> bool" for tpm :: int where
  start: "reachable tpm HospitalScheduler_ctor"
| add: "reachable tpm s \<Longrightarrow> reachable tpm (addPatient (Patient_ctor pid nm ag) s)"
| ingest: "reachable tpm s \<Longrightarrow> reachable tpm (processVitalReading t_alert t_trend reading s)"
| dispatch:
    "reachable tpm s \<Longrightarrow>
     processNextAlert tpm now (alertProcessor s, console s) (ap, out) \<Longrightarrow>
     reachable tpm (s\<lparr>alertProcessor := ap, console := out\<rparr>)"

section \<open>The statistics the specification names\<close>

text \<open>
  The following definitions state the quantities in the words of the specification, in
  exact arithmetic: the adjacent first differences \<open>reading[i] - reading[i-1]\<close>, the mean
  of a list, and the population standard deviation (the square root of the mean of the
  squared deviations).
\<close>

fun first_differences :: "real list \<Rightarrow> real list" where
  "first_differences (x # y # xs) = (y - x) # first_differences (y # xs)"
| "first_differences _ = []"

definition mean_of :: "real list \<Rightarrow> real" where
  "mean_of xs = sum_list xs / real (length xs)"


text \<open>
  The same quantities as the program computes them in binary64: each difference rounded;
  the mean as the running sum, from 0 and rounded after each addition, divided by the
  number of values; the standard deviation as the square root of the mean of the squared
  deviations from that mean; the z-score of the last value.
\<close>

fun differences_b64 :: "double list \<Rightarrow> double list" where
  "differences_b64 (x # y # xs) = dsub y x # differences_b64 (y # xs)"
| "differences_b64 _ = []"

definition mean_b64 :: "double list \<Rightarrow> double" where
  "mean_b64 xs = ddiv (foldl dadd (Finite 0) xs) (Finite (real (length xs)))"



text \<open>
  The order of the specification on alerts: priority ascending (CRITICAL first), then
  \<open>createdAt\<close> ascending.
\<close>

definition precedes :: "Alert \<Rightarrow> Alert \<Rightarrow> bool" where
  "precedes a b =
     (priority_value (a_priority a) < priority_value (a_priority b)
      \<or> (a_priority a = a_priority b \<and> a_createdAt a \<le> a_createdAt b))"

text \<open>The alerts that were handled, in the order of the output.\<close>

fun handled_alerts :: "Event list \<Rightarrow> Alert list" where
  "handled_alerts [] = []"
| "handled_alerts (Handled alert ms ok # es) = alert # handled_alerts es"
| "handled_alerts (FalseAlarmFiltered pid msg # es) = handled_alerts es"

text \<open>
  The budgets of the specification, in milliseconds: CRITICAL 2 s, HIGH 30 s, MEDIUM 300 s,
  LOW 3600 s.
\<close>

definition sla_budget_ms :: "Priority \<Rightarrow> int" where
  "sla_budget_ms p = (case p of CRITICAL \<Rightarrow> 2000 | HIGH \<Rightarrow> 30000 | MEDIUM \<Rightarrow> 300000 | LOW \<Rightarrow> 3600000)"

text \<open>
  The aggregate risk of the specification: the most urgent priority among the alerts of a
  subject that are not acknowledged (LOW when there is none).
\<close>

fun most_urgent :: "Priority list \<Rightarrow> Priority" where
  "most_urgent [] = LOW"
| "most_urgent (p # ps) =
     (if priority_value p \<le> priority_value (most_urgent ps) then p else most_urgent ps)"

definition aggregate_risk :: "int \<Rightarrow> Alert list \<Rightarrow> Priority" where
  "aggregate_risk pid alerts =
     most_urgent (map a_priority (filter (\<lambda>a. a_patientId a = pid \<and> \<not> a_acknowledged a) alerts))"


section \<open>Example inputs\<close>

text \<open>
  The three alerts of the specification's example: \<open>{HIGH, t = 1}\<close>, \<open>{CRITICAL, t = 2}\<close>,
  \<open>{CRITICAL, t = 0}\<close>, pushed in this order.
\<close>

definition example_alert :: "Priority \<Rightarrow> time_point \<Rightarrow> Alert" where
  "example_alert p t = Alert_ctor t 1 p ''Test'' HEART_RATE"

definition example_queue :: "Alert list" where
  "example_queue = [example_alert HIGH 1, example_alert CRITICAL 2, example_alert CRITICAL 0]"

definition example_processor :: "Alert list \<Rightarrow> int \<Rightarrow> AlertProcessor" where
  "example_processor q n = \<lparr>alertQueue = q, totalAlertsProcessed = n, falseAlarmsFiltered = 0\<rparr>"

text \<open>
  A scheduler with one registered patient; the same after four heart-rate readings
  100, 130, 100, 130; the patient of that state; a patient whose heart-rate window is
  full.
\<close>

definition demo_scheduler :: HospitalScheduler where
  "demo_scheduler = addPatient (Patient_ctor 1 ''John Doe'' 45) HospitalScheduler_ctor"

definition heart_rates :: "real list \<Rightarrow> HospitalScheduler \<Rightarrow> HospitalScheduler" where
  "heart_rates vs s = fold (\<lambda>v. processVitalReading 0 0 (VitalReading_ctor 0 HEART_RATE v 1)) vs s"

definition noisy_scheduler :: HospitalScheduler where
  "noisy_scheduler = heart_rates [100, 130, 100, 130] demo_scheduler"

definition noisy_patient :: Patient where
  "noisy_patient = (Patient_ctor 1 ''John Doe'' 45)
     \<lparr>vitalHistory := (\<lambda>_. [])(HEART_RATE :=
        map (\<lambda>v. VitalReading_ctor 0 HEART_RATE v 1) [100, 130, 100, 130])\<rparr>"

definition full_patient :: Patient where
  "full_patient = (Patient_ctor 1 ''John Doe'' 45)
     \<lparr>vitalHistory := (\<lambda>_. [])(HEART_RATE := replicate 100 (VitalReading_ctor 0 HEART_RATE 75 1))\<rparr>"

text \<open>
  A window of the binary64 numbers written 65.2, 81.0, 167.7, 34.8 and 73.2, and six
  readings of the binary64 number written 100.1, by their exact values.
\<close>

definition rounding_window :: "real list" where
  "rounding_window = [4588042120383693 / 70368744177664, 81, 2950209599648563 / 17592186044416, 2448832297382707 / 70368744177664, 5150992073805005 / 70368744177664]"


section \<open>Risk classification\<close>

text \<open>
  Claim C1. For every heart-rate reading, \<open>assessRisk\<close> returns CRITICAL when the value is
  below 30 or above 180, and HIGH when the value is strictly between 30 and 50 or
  strictly between 120 and 180, whatever the patient's normal ranges are.
\<close>

theorem assessRisk_heart_rate:
  assumes "r_type reading = HEART_RATE"
  shows "(r_value reading < 30 \<or> r_value reading > 180 \<longrightarrow> assessRisk p reading = CRITICAL)
       \<and> ((30 < r_value reading \<and> r_value reading < 50)
            \<or> (120 < r_value reading \<and> r_value reading < 180)
          \<longrightarrow> assessRisk p reading = HIGH)"
  using assms by (auto simp: assessRisk_def)

theorem assessRisk_heart_rate_witness:
  "assessRisk (Patient_ctor 1 ''Test'' 30)
     \<lparr>r_type = HEART_RATE, r_value = 200, r_timestamp = 0, r_patientId = 1\<rparr> = CRITICAL
   \<and> assessRisk (Patient_ctor 1 ''Test'' 30)
     \<lparr>r_type = HEART_RATE, r_value = 25, r_timestamp = 0, r_patientId = 1\<rparr> = CRITICAL
   \<and> assessRisk (Patient_ctor 1 ''Test'' 30)
     \<lparr>r_type = HEART_RATE, r_value = 45, r_timestamp = 0, r_patientId = 1\<rparr> = HIGH
   \<and> assessRisk (Patient_ctor 1 ''Test'' 30)
     \<lparr>r_type = HEART_RATE, r_value = 130, r_timestamp = 0, r_patientId = 1\<rparr> = HIGH"
  using
    assessRisk_heart_rate [of "\<lparr>r_type = HEART_RATE, r_value = 200, r_timestamp = 0, r_patientId = 1\<rparr>"
      "Patient_ctor 1 ''Test'' 30"]
    assessRisk_heart_rate [of "\<lparr>r_type = HEART_RATE, r_value = 25, r_timestamp = 0, r_patientId = 1\<rparr>"
      "Patient_ctor 1 ''Test'' 30"]
    assessRisk_heart_rate [of "\<lparr>r_type = HEART_RATE, r_value = 45, r_timestamp = 0, r_patientId = 1\<rparr>"
      "Patient_ctor 1 ''Test'' 30"]
    assessRisk_heart_rate [of "\<lparr>r_type = HEART_RATE, r_value = 130, r_timestamp = 0, r_patientId = 1\<rparr>"
      "Patient_ctor 1 ''Test'' 30"]
  by simp

section \<open>Evaluation of the example inputs\<close>

lemma VitalReading_ctor_sel:
  "r_type (VitalReading_ctor now t v pid) = t"
  "r_value (VitalReading_ctor now t v pid) = v"
  "r_timestamp (VitalReading_ctor now t v pid) = now"
  "r_patientId (VitalReading_ctor now t v pid) = pid"
  by (simp_all add: VitalReading_ctor_def)

lemma example_alert_sel:
  "a_priority (example_alert p t) = p" "a_createdAt (example_alert p t) = t"
  by (simp_all add: example_alert_def Alert_ctor_def)

section \<open>Loops of the source as list functions\<close>

lemma upt_last4: "4 \<le> n \<Longrightarrow> [n - 4 ..< n] = [n - 4, n - 3, n - 2, n - 1]"
  by (simp add: upt_conv_Cons) arith

lemma last5_split:
  assumes "5 \<le> length (h::'a list)"
  shows "\<exists>pre a b c d e. h = pre @ [a, b, c, d, e]"
proof -
  define pre where "pre = take (length h - 5) h"
  define suf where "suf = drop (length h - 5) h"
  have l: "length suf = 5" using assms by (simp add: suf_def)
  have h: "h = pre @ suf" by (simp add: pre_def suf_def)
  from l obtain a b c d e where "suf = [a,b,c,d,e]"
    by (auto simp: length_Suc_conv eval_nat_numeral)
  with h show ?thesis by blast
qed






section \<open>Binary64 rounding\<close>

lemma ulp_from_eq:
  assumes "k0 \<le> k" "k \<le> 971" "a < 2 powi (k + 53)"
    and "\<And>j. k0 \<le> j \<Longrightarrow> j < k \<Longrightarrow> 2 powi (j + 53) \<le> a"
  shows "ulp_from k0 a = k"
  using assms
proof (induction k0 a rule: ulp_from.induct)
  case (1 k0 a)
  show ?case
  proof (cases "k0 = k")
    case True
    then show ?thesis using "1.prems" by (subst ulp_from.simps) simp
  next
    case False
    then have lt: "k0 < k" using "1.prems"(1) by simp
    then have c: "\<not> (971 \<le> k0 \<or> a < 2 powi (k0 + 53))"
      using "1.prems"(2) "1.prems"(4) [of k0] by auto
    have "ulp_from (k0 + 1) a = k"
      using c lt "1.prems" by (intro "1.IH") auto
    then show ?thesis using c by (subst ulp_from.simps) simp
  qed
qed

lemma ulp_exponent_eq:
  assumes "- 1074 \<le> k" "k \<le> 971" "a < 2 powi (k + 53)"
    and "k = - 1074 \<or> 2 powi (k + 52) \<le> a"
  shows "ulp_exponent a = k"
  unfolding ulp_exponent_def
proof (rule ulp_from_eq [OF assms(1,2,3)])
  fix j :: int
  assume j: "- 1074 \<le> j" "j < k"
  then have "2 powi (k + 52) \<le> a" using assms(4) by auto
  moreover have "(2::real) powi (j + 53) \<le> 2 powi (k + 52)"
    using j by (intro power_int_increasing) auto
  ultimately show "2 powi (j + 53) \<le> a" by simp
qed

lemma round_to_even_fraction:
  assumes "0 < q"
  shows "round_to_even (of_int p / of_int q) = round_fraction p q"
proof -
  have f: "\<lfloor>(of_int p / of_int q :: real)\<rfloor> = p div q"
    by (simp add: floor_divide_of_int_eq)
  have "(of_int p :: real) = of_int (p div q) * of_int q + of_int (p mod q)"
    by (metis div_mult_mod_eq of_int_add of_int_mult)
  then have d: "(of_int p / of_int q :: real) - of_int (p div q) = of_int (p mod q) / of_int q"
    using assms by (simp add: field_simps)
  have lt: "(of_int (p mod q) / of_int q < (1 / 2 :: real)) = (2 * (p mod q) < q)"
    using assms by (simp add: field_simps) linarith
  have gt: "((1 / 2 :: real) < of_int (p mod q) / of_int q) = (q < 2 * (p mod q))"
    using assms by (simp add: field_simps) linarith
  show ?thesis
    unfolding round_to_even_def round_fraction_def Let_def f d lt gt by simp
qed

lemma round64_positive:
  assumes "0 < a" "- 1074 \<le> k" "k \<le> 971" "a < 2 powi (k + 53)"
    and "k = - 1074 \<or> 2 powi (k + 52) \<le> a"
    and "round_to_even (a / 2 powi k) = m"
    and "of_int m * (2::real) powi k < 2 ^ 1024"
  shows "round64 a = Finite (of_int m * 2 powi k)"
  using assms by (simp add: round64_def nearest64_def ulp_exponent_eq [of k a] Let_def)

lemma round64_minus: "round64 (- r) = dneg (round64 r)"
  by (simp add: round64_def sgn_if)

lemma round64_fraction:
  fixes p q m :: int and n :: nat
  assumes "x = of_int p / of_int q" "0 < p" "0 < q" "n \<le> 1074"
    and "p * 2 ^ n < 2 ^ 53 * q"
    and "n = 1074 \<or> 2 ^ 52 * q \<le> p * 2 ^ n"
    and "round_fraction (p * 2 ^ n) q = m"
    and "y = of_int m / 2 ^ n"
  shows "round64 x = Finite y"
proof -
  have pw: "(2::real) powi (- int n) = 1 / 2 ^ n"
    by (simp add: power_int_minus field_simps)
  have a: "0 < x" using assms(1,2,3) by simp
  have up: "x < 2 powi (- int n + 53)"
  proof -
    have "(of_int (p * 2 ^ n) :: real) < of_int (2 ^ 53 * q)"
      using assms(5) by (simp only: of_int_less_iff)
    then have "of_int p * 2 ^ n < 2 ^ 53 * (of_int q :: real)" by simp
    moreover have "x * 2 ^ n = of_int p * 2 ^ n / of_int q" using assms(1) by simp
    ultimately have "x * 2 ^ n < 2 ^ 53"
      using assms(3) by (simp add: pos_divide_less_eq)
    then have "x < 2 ^ 53 / 2 ^ n" by (simp add: pos_less_divide_eq)
    moreover have "(2::real) powi (- int n + 53) = 2 ^ 53 / 2 ^ n"
      using power_int_diff [of "2::real" 53 "int n"] by simp
    ultimately show ?thesis by simp
  qed
  have low: "- int n = - 1074 \<or> 2 powi (- int n + 52) \<le> x"
  proof (cases "n = 1074")
    case True
    then show ?thesis by simp
  next
    case False
    then have "2 ^ 52 * q \<le> p * 2 ^ n" using assms(6) by simp
    then have "(of_int (2 ^ 52 * q) :: real) \<le> of_int (p * 2 ^ n)"
      by (simp only: of_int_le_iff)
    then have "2 ^ 52 * (of_int q :: real) \<le> of_int p * 2 ^ n" by simp
    moreover have "x * 2 ^ n = of_int p * 2 ^ n / of_int q" using assms(1) by simp
    ultimately have "2 ^ 52 \<le> x * 2 ^ n"
      using assms(3) by (simp add: pos_le_divide_eq)
    then have "2 ^ 52 / 2 ^ n \<le> x" by (simp add: pos_divide_le_eq)
    moreover have "(2::real) powi (- int n + 52) = 2 ^ 52 / 2 ^ n"
      using power_int_diff [of "2::real" 52 "int n"] by simp
    ultimately show ?thesis by simp
  qed
  have "x / 2 powi (- int n) = of_int (p * 2 ^ n) / of_int q"
    using assms(1) by (simp add: pw)
  then have r: "round_to_even (x / 2 powi (- int n)) = m"
    using assms(3,7) by (simp only: round_to_even_fraction)
  have mle: "m \<le> 2 ^ 53"
  proof -
    have "(p * 2 ^ n) div q * q \<le> p * 2 ^ n"
      using pos_mod_sign [OF assms(3), of "p * 2 ^ n"] div_mult_mod_eq [of "p * 2 ^ n" q]
      by linarith
    then have "(p * 2 ^ n) div q * q < 2 ^ 53 * q" using assms(5) by linarith
    then have "(p * 2 ^ n) div q < 2 ^ 53"
      using assms(3) by (simp only: mult_less_cancel_right)
    then show ?thesis
      using assms(7) by (auto simp: round_fraction_def Let_def split: if_splits)
  qed
  have mge: "0 \<le> m"
  proof -
    have "0 \<le> (p * 2 ^ n) div q"
      using assms(2,3) by (simp add: pos_imp_zdiv_nonneg_iff)
    then show ?thesis
      using assms(7) by (auto simp: round_fraction_def Let_def split: if_splits)
  qed
  have small: "of_int m * (2::real) powi (- int n) < 2 ^ 1024"
  proof -
    have "of_int m / (2::real) ^ n \<le> of_int m / 1"
      using mge by (intro frac_le) simp_all
    then have "of_int m * (2::real) powi (- int n) \<le> of_int m"
      by (simp add: pw)
    also have "\<dots> \<le> of_int (2 ^ 53)" using mle by (simp only: of_int_le_iff)
    also have "\<dots> = (2::real) ^ 53" by simp
    also have "\<dots> < (2::real) ^ 1024" by (rule power_strict_increasing) simp_all
    finally show ?thesis .
  qed
  have "round64 x = Finite (of_int m * 2 powi (- int n))"
    using a _ _ up low r small by (rule round64_positive) (use assms(4) in simp_all)
  then show ?thesis by (simp add: pw assms(8))
qed

lemma round64_fraction_neg:
  fixes p q m :: int and n :: nat
  assumes "x = - (of_int p / of_int q)" "0 < p" "0 < q" "n \<le> 1074"
    and "p * 2 ^ n < 2 ^ 53 * q"
    and "n = 1074 \<or> 2 ^ 52 * q \<le> p * 2 ^ n"
    and "round_fraction (p * 2 ^ n) q = m"
    and "y = - (of_int m / 2 ^ n)"
  shows "round64 x = Finite y"
proof -
  have "round64 (of_int p / of_int q) = Finite (of_int m / 2 ^ n)"
    using refl assms(2-7) refl by (rule round64_fraction)
  then show ?thesis
    unfolding assms(1,8) round64_minus by simp
qed

lemma round64_zero [simp]: "round64 0 = Finite 0"
  by (simp add: round64_def)

lemma detectTrend_b64_loop:
  "fold (\<lambda>i s. dadd s (dsub ((pre @ [a, b, c, d, e]) ! i) ((pre @ [a, b, c, d, e]) ! (i - 1))))
      [length (pre @ [a, b, c, d, e]) - 4 ..< length (pre @ [a, b, c, d, e])] (Finite 0)
   = foldl dadd (Finite 0) (differences_b64 (drop (length (pre @ [a, b, c, d, e]) - 5)
       (pre @ [a, b, c, d, e])))"
  by (simp add: upt_last4 nth_append)

lemma dsub_self: "dsub v v = Finite 0 \<or> dsub v v = NaN"
  by (cases v) (simp_all add: dsub_def)










subsection \<open>Whole numbers are computed exactly\<close>

text \<open>
  A number \<open>j * 2\<^sup>e\<close> with \<open>0 < j < 2\<^sup>5\<^sup>3\<close> and \<open>-1074 \<le> e \<le> 971\<close> is a binary64 number:
  rounding leaves it as it is. So sums and differences of whole numbers below \<open>2\<^sup>5\<^sup>3\<close>, and
  their quarters, are computed without error.
\<close>

lemma ulp_from_lower: "k0 \<le> ulp_from k0 a"
proof (induction k0 a rule: ulp_from.induct)
  case (1 k a)
  show ?case
  proof (cases "971 \<le> k \<or> a < 2 powi (k + 53)")
    case True
    then show ?thesis by (subst ulp_from.simps) simp
  next
    case False
    with "1.IH" have "k + 1 \<le> ulp_from (k + 1) a" by simp
    with False show ?thesis by (subst ulp_from.simps) simp
  qed
qed

lemma ulp_from_upper: "k0 \<le> e \<Longrightarrow> a < 2 powi (e + 53) \<Longrightarrow> ulp_from k0 a \<le> e"
proof (induction k0 a rule: ulp_from.induct)
  case (1 k a)
  show ?case
  proof (cases "971 \<le> k \<or> a < 2 powi (k + 53)")
    case True
    then show ?thesis using "1.prems" by (subst ulp_from.simps) simp
  next
    case False
    then have "k \<noteq> e" using "1.prems"(2) by auto
    with "1.prems" have "k + 1 \<le> e" by simp
    with False "1.IH" "1.prems"(2) have "ulp_from (k + 1) a \<le> e" by simp
    with False show ?thesis by (subst ulp_from.simps) simp
  qed
qed

lemma round_to_even_of_int: "round_to_even (of_int z) = z"
  by (simp add: round_to_even_def)

lemma nearest64_exact:
  assumes "0 < j" "j < 2 ^ 53" "- 1074 \<le> e"
  shows "nearest64 (of_int j * 2 powi e) = of_int j * 2 powi e"
proof -
  let ?a = "of_int j * (2::real) powi e"
  define k where "k = ulp_exponent ?a"
  have "(of_int j :: real) < of_int (2 ^ 53)" using assms(2) by (simp only: of_int_less_iff)
  then have "?a < 2 ^ 53 * 2 powi e" by simp
  also have "\<dots> = 2 powi (e + 53)" by (simp add: power_int_add)
  finally have up: "?a < 2 powi (e + 53)" .
  have k_le: "k \<le> e"
    unfolding k_def ulp_exponent_def using assms(3) up by (rule ulp_from_upper)
  have k_ge: "- 1074 \<le> k"
    unfolding k_def ulp_exponent_def by (rule ulp_from_lower)
  have split: "(2::real) powi e = 2 ^ nat (e - k) * 2 powi k"
  proof -
    have "(2::real) powi e = 2 powi ((e - k) + k)" by simp
    also have "\<dots> = 2 powi (e - k) * 2 powi k" by (rule power_int_add) simp
    also have "2 powi (e - k) = (2::real) ^ nat (e - k)"
      using k_le by (simp add: power_int_def)
    finally show ?thesis .
  qed
  have q: "?a / 2 powi k = of_int (j * 2 ^ nat (e - k))"
    by (simp add: split)
  have "nearest64 ?a = of_int (round_to_even (?a / 2 powi k)) * 2 powi k"
    by (simp add: nearest64_def k_def Let_def)
  also have "\<dots> = of_int (j * 2 ^ nat (e - k)) * 2 powi k"
    unfolding q round_to_even_of_int ..
  also have "\<dots> = ?a" by (simp add: split)
  finally show ?thesis .
qed

lemma round64_exact:
  assumes "0 < j" "j < 2 ^ 53" "- 1074 \<le> e" "e \<le> 971"
  shows "round64 (of_int j * 2 powi e) = Finite (of_int j * 2 powi e)"
proof -
  let ?a = "of_int j * (2::real) powi e"
  have pos: "0 < ?a" using assms(1) by simp
  have "(of_int j :: real) < of_int (2 ^ 53)" using assms(2) by (simp only: of_int_less_iff)
  then have "?a < 2 ^ 53 * 2 powi e" by simp
  also have "\<dots> = 2 powi (e + 53)" by (simp add: power_int_add)
  also have "\<dots> \<le> 2 powi 1024" using assms(4) by (intro power_int_increasing) simp_all
  finally have "?a < 2 ^ 1024" by simp
  then show ?thesis
    using pos nearest64_exact [OF assms(1,2,3)] by (simp add: round64_def)
qed

lemma round64_int:
  assumes "\<bar>i\<bar> < 2 ^ 53"
  shows "round64 (of_int i) = Finite (of_int i)"
proof -
  have p: "round64 (of_int j) = Finite (of_int j)" if "0 < j" "j < 2 ^ 53" for j :: int
    using round64_exact [OF that, of 0] by simp
  consider "i = 0" | "0 < i" | "i < 0" by linarith
  then show ?thesis
  proof cases
    case 1
    then show ?thesis by simp
  next
    case 2
    with assms show ?thesis by (intro p) simp_all
  next
    case 3
    with assms have "round64 (of_int (- i)) = Finite (of_int (- i))" by (intro p) simp_all
    then show ?thesis using round64_minus [of "of_int i"] by (cases "round64 (of_int i)") simp_all
  qed
qed

lemma round64_int_quarter:
  assumes "\<bar>i\<bar> < 2 ^ 53"
  shows "round64 (of_int i / 4) = Finite (of_int i / 4)"
proof -
  have q: "(2::real) powi (- 2) = 1 / 4" by (simp add: power_int_minus field_simps)
  have p: "round64 (of_int j / 4) = Finite (of_int j / 4)" if "0 < j" "j < 2 ^ 53" for j :: int
    using round64_exact [OF that, of "- 2"] by (simp add: q)
  consider "i = 0" | "0 < i" | "i < 0" by linarith
  then show ?thesis
  proof cases
    case 1
    then show ?thesis by simp
  next
    case 2
    with assms show ?thesis by (intro p) simp_all
  next
    case 3
    with assms have "round64 (of_int (- i) / 4) = Finite (of_int (- i) / 4)"
      by (intro p) simp_all
    then show ?thesis
      using round64_minus [of "of_int i / 4"] by (cases "round64 (of_int i / 4)") simp_all
  qed
qed


lemma round64_Ints:
  assumes "x \<in> \<int>" "\<bar>x\<bar> < 2 ^ 53"
  shows "round64 x = Finite x"
proof -
  from assms(1) obtain i :: int where x: "x = of_int i" by (auto elim: Ints_cases)
  have "\<bar>(of_int i :: real)\<bar> < of_int (2 ^ 53)" using assms(2) x by simp
  then have "\<bar>i\<bar> < 2 ^ 53" by (simp only: of_int_abs [symmetric] of_int_less_iff)
  then show ?thesis unfolding x by (rule round64_int)
qed

lemma dadd_Ints:
  assumes "x + y = z" "z \<in> \<int>" "\<bar>z\<bar> < 2 ^ 53"
  shows "dadd (Finite x) (Finite y) = Finite z"
  using round64_Ints [OF assms(2,3)] assms(1) by simp

lemma dsub_Ints:
  assumes "y - x = z" "z \<in> \<int>" "\<bar>z\<bar> < 2 ^ 53"
  shows "dsub (Finite y) (Finite x) = Finite z"
  using round64_Ints [OF assms(2,3)] assms(1) by (simp add: dsub_def)

lemma ddiv4_Ints:
  assumes "z \<in> \<int>" "\<bar>z\<bar> < 2 ^ 53"
  shows "ddiv (Finite z) (Finite 4) = Finite (z / 4)"
proof -
  from assms(1) obtain i :: int where z: "z = of_int i" by (auto elim: Ints_cases)
  have "\<bar>(of_int i :: real)\<bar> < of_int (2 ^ 53)" using assms(2) z by simp
  then have "\<bar>i\<bar> < 2 ^ 53" by (simp only: of_int_abs [symmetric] of_int_less_iff)
  then show ?thesis unfolding z by (simp add: round64_int_quarter)
qed

lemma whole_window_mean:
  fixes a b c d e :: int
  assumes "\<bar>a\<bar> \<le> 2 ^ 50" "\<bar>b\<bar> \<le> 2 ^ 50" "\<bar>c\<bar> \<le> 2 ^ 50" "\<bar>d\<bar> \<le> 2 ^ 50" "\<bar>e\<bar> \<le> 2 ^ 50"
  shows "mean_b64 (differences_b64 (map (\<lambda>z. Finite (of_int z)) [a, b, c, d, e]))
    = Finite (mean_of (first_differences (map of_int [a, b, c, d, e])))"
proof -
  have small: "\<bar>(of_int (y - x) :: real)\<bar> < 2 ^ 53"
    if "\<bar>x\<bar> \<le> 2 ^ 50" "\<bar>y\<bar> \<le> 2 ^ 50" for x y :: int
  proof -
    from that have "\<bar>y - x\<bar> < 2 ^ 53" by simp
    then have "(of_int \<bar>y - x\<bar> :: real) < of_int (2 ^ 53)" by (simp only: of_int_less_iff)
    then show ?thesis by simp
  qed
  have d1: "dsub (Finite (of_int b)) (Finite (of_int a)) = Finite (of_int (b - a))"
    using small [OF assms(1,2)] by (intro dsub_Ints) simp_all
  have d2: "dsub (Finite (of_int c)) (Finite (of_int b)) = Finite (of_int (c - b))"
    using small [OF assms(2,3)] by (intro dsub_Ints) simp_all
  have d3: "dsub (Finite (of_int d)) (Finite (of_int c)) = Finite (of_int (d - c))"
    using small [OF assms(3,4)] by (intro dsub_Ints) simp_all
  have d4: "dsub (Finite (of_int e)) (Finite (of_int d)) = Finite (of_int (e - d))"
    using small [OF assms(4,5)] by (intro dsub_Ints) simp_all
  have s1: "dadd (Finite 0) (Finite (of_int (b - a))) = Finite (of_int (b - a))"
    using small [OF assms(1,2)] by (intro dadd_Ints) simp_all
  have s2: "dadd (Finite (of_int (b - a))) (Finite (of_int (c - b))) = Finite (of_int (c - a))"
    using small [OF assms(1,3)] by (intro dadd_Ints) simp_all
  have s3: "dadd (Finite (of_int (c - a))) (Finite (of_int (d - c))) = Finite (of_int (d - a))"
    using small [OF assms(1,4)] by (intro dadd_Ints) simp_all
  have s4: "dadd (Finite (of_int (d - a))) (Finite (of_int (e - d))) = Finite (of_int (e - a))"
    using small [OF assms(1,5)] by (intro dadd_Ints) simp_all
  have q: "ddiv (Finite (of_int (e - a))) (Finite 4) = Finite (of_int (e - a) / 4)"
    using small [OF assms(1,5)] by (intro ddiv4_Ints) simp_all
  have "mean_b64 (differences_b64 (map (\<lambda>z. Finite (of_int z)) [a, b, c, d, e]))
      = ddiv (dadd (dadd (dadd (dadd (Finite 0)
          (dsub (Finite (of_int b)) (Finite (of_int a))))
          (dsub (Finite (of_int c)) (Finite (of_int b))))
          (dsub (Finite (of_int d)) (Finite (of_int c))))
          (dsub (Finite (of_int e)) (Finite (of_int d)))) (Finite 4)"
    by (simp add: mean_b64_def)
  also have "\<dots> = Finite (of_int (e - a) / 4)"
    unfolding d1 d2 d3 d4 s1 s2 s3 s4 q ..
  also have "of_int (e - a) / 4 = mean_of (first_differences (map of_int [a, b, c, d, e]))"
    by (simp add: mean_of_def)
  finally show ?thesis .
qed

lemma whole_window_trend:
  fixes zs :: "int list"
  assumes "5 \<le> length zs" "\<forall>z \<in> set zs. \<bar>z\<bar> \<le> 2 ^ 50"
  shows "mean_b64 (differences_b64 (drop (length (map (\<lambda>z. Finite (of_int z)) zs) - 5)
            (map (\<lambda>z. Finite (of_int z)) zs)))
    = Finite (mean_of (first_differences (map of_int (drop (length zs - 5) zs))))"
proof -
  from last5_split [OF assms(1)] obtain pre a b c d e
    where h: "zs = pre @ [a, b, c, d, e]" by blast
  from assms(2) have bounds: "\<bar>a\<bar> \<le> 2 ^ 50" "\<bar>b\<bar> \<le> 2 ^ 50" "\<bar>c\<bar> \<le> 2 ^ 50"
      "\<bar>d\<bar> \<le> 2 ^ 50" "\<bar>e\<bar> \<le> 2 ^ 50"
    unfolding h by simp_all
  have dr: "drop (length zs - 5) zs = [a, b, c, d, e]" unfolding h by simp
  have "drop (length (map (\<lambda>z. Finite (of_int z)) zs) - 5) (map (\<lambda>z. Finite (of_int z)) zs)
      = map (\<lambda>z. Finite (of_int z)) (drop (length zs - 5) zs)"
    by (simp add: drop_map)
  then show ?thesis unfolding dr using whole_window_mean [OF bounds] by simp
qed

section \<open>The two examples in binary64, step by step\<close>

lemma trend_literal_0: "round64 (326 / 5) = Finite (4588042120383693 / 70368744177664)"
  by ((simp add: dsub_def)?,
      rule round64_fraction [where p = 326 and q = 5 and n = 46 and m = 4588042120383693],
      simp_all add: round_fraction_def)

lemma trend_literal_1: "round64 (81) = Finite 81"
  by ((simp add: dsub_def)?,
      rule round64_fraction [where p = 81 and q = 1 and n = 46 and m = 5699868278390784],
      simp_all add: round_fraction_def)

lemma trend_literal_2: "round64 (1677 / 10) = Finite (2950209599648563 / 17592186044416)"
  by ((simp add: dsub_def)?,
      rule round64_fraction [where p = 1677 and q = 10 and n = 45 and m = 5900419199297126],
      simp_all add: round_fraction_def)

lemma trend_literal_3: "round64 (174 / 5) = Finite (2448832297382707 / 70368744177664)"
  by ((simp add: dsub_def)?,
      rule round64_fraction [where p = 174 and q = 5 and n = 47 and m = 4897664594765414],
      simp_all add: round_fraction_def)

lemma trend_literal_4: "round64 (366 / 5) = Finite (5150992073805005 / 70368744177664)"
  by ((simp add: dsub_def)?,
      rule round64_fraction [where p = 366 and q = 5 and n = 46 and m = 5150992073805005],
      simp_all add: round_fraction_def)

lemma trend_difference_1: "dsub (Finite 81) (Finite (4588042120383693 / 70368744177664)) = Finite (1111826158007091 / 70368744177664)"
  by ((simp add: dsub_def)?,
      rule round64_fraction [where p = 1111826158007091 and q = 70368744177664 and n = 49 and m = 8894609264056728],
      simp_all add: round_fraction_def)

lemma trend_sum_1: "dadd (Finite 0) (Finite (1111826158007091 / 70368744177664)) = Finite (1111826158007091 / 70368744177664)"
  by ((simp add: dsub_def)?,
      rule round64_fraction [where p = 1111826158007091 and q = 70368744177664 and n = 49 and m = 8894609264056728],
      simp_all add: round_fraction_def)

lemma trend_difference_2: "dsub (Finite (2950209599648563 / 17592186044416)) (Finite 81) = Finite (1525242530050867 / 17592186044416)"
  by ((simp add: dsub_def)?,
      rule round64_fraction [where p = 1525242530050867 and q = 17592186044416 and n = 46 and m = 6100970120203468],
      simp_all add: round_fraction_def)

lemma trend_sum_2: "dadd (Finite (1111826158007091 / 70368744177664)) (Finite (1525242530050867 / 17592186044416)) = Finite (7212796278210559 / 70368744177664)"
  by ((simp add: dsub_def)?,
      rule round64_fraction [where p = 7212796278210559 and q = 70368744177664 and n = 46 and m = 7212796278210559],
      simp_all add: round_fraction_def)

lemma trend_difference_3: "dsub (Finite (2448832297382707 / 70368744177664)) (Finite (2950209599648563 / 17592186044416)) = Finite (- (1169000762651443 / 8796093022208))"
  by ((simp add: dsub_def)?,
      rule round64_fraction_neg [where p = 9352006101211545 and q = 70368744177664 and n = 45 and m = 4676003050605772],
      simp_all add: round_fraction_def)

lemma trend_sum_3: "dadd (Finite (7212796278210559 / 70368744177664)) (Finite (- (1169000762651443 / 8796093022208))) = Finite (- (2139209823000985 / 70368744177664))"
  by ((simp add: dsub_def)?,
      rule round64_fraction_neg [where p = 2139209823000985 and q = 70368744177664 and n = 48 and m = 8556839292003940],
      simp_all add: round_fraction_def)

lemma trend_difference_4: "dsub (Finite (5150992073805005 / 70368744177664)) (Finite (2448832297382707 / 70368744177664)) = Finite (1351079888211149 / 35184372088832)"
  by ((simp add: dsub_def)?,
      rule round64_fraction [where p = 1351079888211149 and q = 35184372088832 and n = 47 and m = 5404319552844596],
      simp_all add: round_fraction_def)

lemma trend_sum_4: "dadd (Finite (- (2139209823000985 / 70368744177664))) (Finite (1351079888211149 / 35184372088832)) = Finite (562949953421313 / 70368744177664)"
  by ((simp add: dsub_def)?,
      rule round64_fraction [where p = 562949953421313 and q = 70368744177664 and n = 49 and m = 4503599627370504],
      simp_all add: round_fraction_def)

lemma trend_average: "ddiv (Finite (562949953421313 / 70368744177664)) (Finite 4) = Finite (562949953421313 / 281474976710656)"
  by ((simp add: dsub_def)?,
      rule round64_fraction [where p = 562949953421313 and q = 281474976710656 and n = 51 and m = 4503599627370504],
      simp_all add: round_fraction_def)



















lemma rounding_window_trend: "detectTrend_b64 (map Finite rounding_window)"
  by (simp add: rounding_window_def detectTrend_b64_def upt_last4
      trend_difference_1 trend_sum_1 trend_difference_2 trend_sum_2 trend_difference_3 trend_sum_3 trend_difference_4 trend_sum_4 trend_average
      del: dadd.simps ddiv.simps)

lemma rounding_window_mean: "mean_of (first_differences rounding_window) = 2"
  by (simp add: rounding_window_def mean_of_def)







section \<open>Trend detection\<close>

text \<open>
  Claim C2 fails as it is stated. The window of the binary64 numbers written 65.2, 81.0,
  167.7, 34.8, 73.2 has the exact mean difference 2, which does not exceed 2.0; the
  running sum of the program is 8.000000000000014, the mean it computes is
  2.0000000000000036, and \<^verbatim>\<open>detectTrend\<close> returns true.
\<close>

theorem detectTrend_rounding_counterexample:
  "map Finite rounding_window
     = [round64 (652 / 10), round64 81, round64 (1677 / 10), round64 (348 / 10), round64 (732 / 10)]
   \<and> mean_of (first_differences rounding_window) = 2
   \<and> detectTrend_b64 (map Finite rounding_window)"
proof -
  have "map Finite rounding_window
     = [round64 (326 / 5), round64 81, round64 (1677 / 10), round64 (174 / 5), round64 (366 / 5)]"
    unfolding trend_literal_0 trend_literal_1 trend_literal_2 trend_literal_3 trend_literal_4
    by (simp add: rounding_window_def)
  then have "map Finite rounding_window
     = [round64 (652 / 10), round64 81, round64 (1677 / 10), round64 (348 / 10), round64 (732 / 10)]"
    by simp
  with rounding_window_mean rounding_window_trend show ?thesis by blast
qed

text \<open>
  Claim C2, amended. For a window of fewer than 5 readings \<open>detectTrend\<close> returns false;
  for a window of at least 5 readings it returns true exactly when the absolute value of
  the mean of the four adjacent first differences over the last 5 readings, as binary64
  arithmetic computes it (each difference rounded, the running sum from 0 rounded after
  each addition, the sum divided by 4.0), exceeds 2.0; for a window of 5 identical values
  it returns false. When the readings are whole numbers of magnitude at most \<open>2\<^sup>5\<^sup>0\<close> the
  computed mean is the exact one, and the claim holds as it was stated.
\<close>

theorem detectTrend_b64_spec:
  "(length w < 5 \<longrightarrow> \<not> detectTrend_b64 w)
   \<and> (5 \<le> length w \<longrightarrow>
        detectTrend_b64 w
          = dless (Finite 2) (dabs (mean_b64 (differences_b64 (drop (length w - 5) w)))))
   \<and> (length w = 5 \<and> (\<forall>x \<in> set w. x = v) \<longrightarrow> \<not> detectTrend_b64 w)
   \<and> (5 \<le> length zs \<and> (\<forall>z \<in> set zs. \<bar>z\<bar> \<le> 2 ^ 50) \<longrightarrow>
        detectTrend_b64 (map (\<lambda>z. Finite (of_int z)) zs)
          = (2 < \<bar>mean_of (first_differences (map of_int (drop (length zs - 5) zs)))\<bar>))"
proof -
  have short: "length w < 5 \<longrightarrow> \<not> detectTrend_b64 w"
    by (simp add: detectTrend_b64_def)
  have long: "detectTrend_b64 w
          = dless (Finite 2) (dabs (mean_b64 (differences_b64 (drop (length w - 5) w))))"
    if "5 \<le> length w" for w
  proof -
    from last5_split [OF that] obtain pre a b c d e
      where h: "w = pre @ [a, b, c, d, e]" by blast
    have len: "length (differences_b64 (drop (length (pre @ [a, b, c, d, e]) - 5)
        (pre @ [a, b, c, d, e]))) = 4"
      by simp
    show ?thesis
      unfolding detectTrend_b64_def Let_def h detectTrend_b64_loop mean_b64_def len by simp
  qed
  have same: "\<not> detectTrend_b64 w"
    if "length w = 5" and "\<forall>x \<in> set w. x = v"
  proof -
    from that(1) obtain a b c d e where "w = [a, b, c, d, e]"
      by (auto simp: length_Suc_conv eval_nat_numeral)
    with that(2) have w: "w = [v, v, v, v, v]" by simp
    show ?thesis
      unfolding w by (cases v) (simp_all add: detectTrend_b64_def upt_last4 dsub_def)
  qed
  have whole: "detectTrend_b64 (map (\<lambda>z. Finite (of_int z)) zs)
          = (2 < \<bar>mean_of (first_differences (map of_int (drop (length zs - 5) zs)))\<bar>)"
    if "5 \<le> length zs" and "\<forall>z \<in> set zs. \<bar>z\<bar> \<le> 2 ^ 50"
  proof -
    have "5 \<le> length (map (\<lambda>z. Finite (real_of_int z)) zs)" using that(1) by simp
    from long [OF this] show ?thesis
      unfolding whole_window_trend [OF that] by simp
  qed
  from short long same whole show ?thesis by blast
qed

theorem detectTrend_b64_spec_witness:
  "detectTrend_b64 (map Finite rounding_window)
   \<and> dless (Finite 2) (dabs (mean_b64 (differences_b64 (map Finite rounding_window))))
   \<and> \<not> detectTrend_b64 [Finite 70, Finite 75, Finite 80, Finite 85]
   \<and> \<not> detectTrend_b64 [Finite 75, Finite 75, Finite 75, Finite 75, Finite 75]
   \<and> \<not> detectTrend_b64 [NaN, NaN, NaN, NaN, NaN]
   \<and> detectTrend_b64 [Finite 70, Finite 75, Finite 80, Finite 85, Finite 90]
   \<and> mean_of (first_differences [70, 75, 80, 85, 90]) = 5"
proof -
  have "5 \<le> length [70, 75, 80, 85, 90 :: int]
        \<and> (\<forall>z \<in> set [70, 75, 80, 85, 90 :: int]. \<bar>z\<bar> \<le> 2 ^ 50) \<longrightarrow>
      detectTrend_b64 (map (\<lambda>z. Finite (of_int z)) [70, 75, 80, 85, 90])
        = (2 < \<bar>mean_of (first_differences (map of_int
             (drop (length [70, 75, 80, 85, 90 :: int] - 5) [70, 75, 80, 85, 90])))\<bar>)"
    using detectTrend_b64_spec [of "[]" NaN "[70, 75, 80, 85, 90]"] by blast
  then have rising: "detectTrend_b64 [Finite 70, Finite 75, Finite 80, Finite 85, Finite 90]"
    by (simp add: mean_of_def)
  have five: "mean_of (first_differences [70, 75, 80, 85, 90]) = 5"
    by (simp add: mean_of_def)
  have "5 \<le> length (map Finite rounding_window) \<longrightarrow>
      detectTrend_b64 (map Finite rounding_window)
        = dless (Finite 2) (dabs (mean_b64 (differences_b64
            (drop (length (map Finite rounding_window) - 5) (map Finite rounding_window)))))"
    using detectTrend_b64_spec [of "map Finite rounding_window" NaN] by blast
  then have long: "dless (Finite 2)
      (dabs (mean_b64 (differences_b64 (map Finite rounding_window))))"
    using rounding_window_trend by (simp add: rounding_window_def)
  have "length [Finite 70, Finite 75, Finite 80, Finite 85] < 5 \<longrightarrow>
      \<not> detectTrend_b64 [Finite 70, Finite 75, Finite 80, Finite 85]"
    using detectTrend_b64_spec [of "[Finite 70, Finite 75, Finite 80, Finite 85]" NaN]
    by blast
  then have short: "\<not> detectTrend_b64 [Finite 70, Finite 75, Finite 80, Finite 85]"
    by simp
  have same: "\<not> detectTrend_b64 [v, v, v, v, v]" for v
  proof -
    have "length [v, v, v, v, v] = 5 \<and> (\<forall>x \<in> set [v, v, v, v, v]. x = v) \<longrightarrow>
        \<not> detectTrend_b64 [v, v, v, v, v]"
      using detectTrend_b64_spec [of "[v, v, v, v, v]" v] by blast
    then show ?thesis by simp
  qed
  from rounding_window_trend long short same [of "Finite 75"] same [of NaN] rising five
  show ?thesis by blast
qed

section \<open>False-alarm suppression\<close>




section \<open>Dequeue order of the alert queue\<close>

lemma priority_value_inj: "priority_value p = priority_value q \<longleftrightarrow> p = q"
  by (cases p; cases q) simp_all

lemma not_AlertComparator: "\<not> AlertComparator a b \<longleftrightarrow> precedes a b"
  using priority_value_inj [of "a_priority a" "a_priority b"]
  by (auto simp: AlertComparator_def precedes_def)

lemma is_top_precedes: "is_top q a \<longleftrightarrow> a \<in> set q \<and> (\<forall>b \<in> set q. precedes a b)"
  by (simp add: is_top_def not_AlertComparator)

lemma precedes_trans: "precedes a b \<Longrightarrow> precedes b c \<Longrightarrow> precedes a c"
  by (auto simp: precedes_def)

lemma precedes_total: "precedes a b \<or> precedes b a"
  using priority_value_inj [of "a_priority a" "a_priority b"]
  by (auto simp: precedes_def)

lemma precedes_refl: "precedes a a"
  by (simp add: precedes_def)

lemma exists_top: "q \<noteq> [] \<Longrightarrow> \<exists>a. is_top q a"
proof (induction q)
  case Nil
  then show ?case by simp
next
  case (Cons x q)
  show ?case
  proof (cases "q = []")
    case True
    then show ?thesis by (auto simp: is_top_precedes precedes_refl)
  next
    case False
    with Cons.IH obtain a where a: "a \<in> set q" "\<forall>b \<in> set q. precedes a b"
      by (auto simp: is_top_precedes)
    show ?thesis
    proof (cases "precedes a x")
      case True
      with a have "is_top (x # q) a" by (auto simp: is_top_precedes)
      then show ?thesis ..
    next
      case False
      then have xa: "precedes x a" using precedes_total by blast
      have "is_top (x # q) x"
        using a xa by (auto simp: is_top_precedes precedes_refl intro: precedes_trans)
      then show ?thesis ..
    qed
  qed
qed

lemma handled_alerts_append: "handled_alerts (xs @ ys) = handled_alerts xs @ handled_alerts ys"
  by (induction xs rule: handled_alerts.induct) simp_all

lemma processNextAlert_nonempty:
  assumes "processNextAlert tpm now (ap, out) mid" and "alertQueue ap \<noteq> []"
  obtains alert where "is_top (alertQueue ap) alert"
    and "mid = (ap\<lparr>alertQueue := remove1 alert (alertQueue ap),
                    totalAlertsProcessed := totalAlertsProcessed ap + 1\<rparr>,
                out @ handleAlert tpm now alert)"
  using assms by (auto elim: processNextAlert.cases)

lemma processAllAlerts_order:
  assumes "processAllAlerts tpm start fin"
  shows "\<exists>evs. snd fin = snd start @ evs
          \<and> sorted_wrt precedes (handled_alerts evs)
          \<and> mset (handled_alerts evs) = mset (alertQueue (fst start))
          \<and> alertQueue (fst fin) = []
          \<and> totalAlertsProcessed (fst fin)
              = totalAlertsProcessed (fst start) + int (length (alertQueue (fst start)))"
  using assms
proof (induction rule: processAllAlerts.induct)
  case (loop_exit ap out)
  then show ?case by simp
next
  case (loop_body ap now out mid fin)
  from processNextAlert_nonempty [OF loop_body.hyps(2) loop_body.hyps(1)]
  obtain alert where top: "is_top (alertQueue ap) alert"
    and mid: "mid = (ap\<lparr>alertQueue := remove1 alert (alertQueue ap),
                    totalAlertsProcessed := totalAlertsProcessed ap + 1\<rparr>,
                out @ handleAlert tpm now alert)" by blast
  from loop_body.IH obtain evs where evs: "snd fin = snd mid @ evs"
    "sorted_wrt precedes (handled_alerts evs)"
    "mset (handled_alerts evs) = mset (alertQueue (fst mid))"
    "alertQueue (fst fin) = []"
    "totalAlertsProcessed (fst fin)
       = totalAlertsProcessed (fst mid) + int (length (alertQueue (fst mid)))"
    by blast
  let ?evs = "handleAlert tpm now alert @ evs"
  have mem: "alert \<in> set (alertQueue ap)" using top by (simp add: is_top_def)
  have rest: "set (handled_alerts evs) \<subseteq> set (alertQueue ap)"
  proof -
    have "mset (handled_alerts evs) = mset (remove1 alert (alertQueue ap))"
      using evs(3) mid by (simp del: mset_remove1)
    then have "set (handled_alerts evs) = set (remove1 alert (alertQueue ap))"
      by (rule mset_eq_setD)
    then show ?thesis using set_remove1_subset by fast
  qed
  have 1: "snd fin = snd (ap, out) @ ?evs" using evs(1) mid by simp
  have 2: "sorted_wrt precedes (handled_alerts ?evs)"
    using evs(2) top rest by (auto simp: handled_alerts_append handleAlert_def is_top_precedes)
  have 3: "mset (handled_alerts ?evs) = mset (alertQueue (fst (ap, out)))"
    using evs(3) mid mem by (simp add: handled_alerts_append handleAlert_def)
  have len: "length (alertQueue ap) = Suc (length (remove1 alert (alertQueue ap)))"
    using mem loop_body.hyps(1) by (simp add: length_remove1)
  have 5: "totalAlertsProcessed (fst fin)
       = totalAlertsProcessed (fst (ap, out)) + int (length (alertQueue (fst (ap, out))))"
    using evs(5) mid len by simp
  from 1 2 3 evs(4) 5 show ?case by blast
qed

lemma processAllAlerts_total: "\<exists>fin. processAllAlerts tpm (ap, out) fin"
proof (induction "length (alertQueue ap)" arbitrary: ap out)
  case 0
  then have "processAllAlerts tpm (ap, out) (ap, out)" by (simp add: loop_exit)
  then show ?case ..
next
  case (Suc n)
  then have ne: "alertQueue ap \<noteq> []" by auto
  from exists_top [OF ne] obtain alert where top: "is_top (alertQueue ap) alert" ..
  let ?ap = "ap\<lparr>alertQueue := remove1 alert (alertQueue ap),
                 totalAlertsProcessed := totalAlertsProcessed ap + 1\<rparr>"
  have step: "processNextAlert tpm 0 (ap, out) (?ap, out @ handleAlert tpm 0 alert)"
    using top by (rule queue_pop)
  have "n = length (alertQueue ?ap)"
    using Suc.hyps(2) top by (simp add: length_remove1 is_top_def)
  from Suc.hyps(1) [OF this] obtain fin
    where "processAllAlerts tpm (?ap, out @ handleAlert tpm 0 alert) fin" ..
  with ne step have "processAllAlerts tpm (ap, out) fin" by (rule loop_body)
  then show ?case ..
qed

lemma processAllAlerts_step:
  assumes "processAllAlerts tpm (ap, out) fin" and "alertQueue ap \<noteq> []"
  shows "\<exists>now alert. is_top (alertQueue ap) alert
           \<and> processAllAlerts tpm
                (ap\<lparr>alertQueue := remove1 alert (alertQueue ap),
                    totalAlertsProcessed := totalAlertsProcessed ap + 1\<rparr>,
                 out @ handleAlert tpm now alert) fin"
  using assms
proof (cases rule: processAllAlerts.cases)
  case loop_exit
  with assms(2) show ?thesis by simp
next
  case loop_body
  then show ?thesis using assms(2) by (auto elim!: processNextAlert.cases)
qed

lemma processAllAlerts_done:
  assumes "processAllAlerts tpm (ap, out) fin" and "alertQueue ap = []"
  shows "fin = (ap, out)"
  using assms by (cases rule: processAllAlerts.cases) auto

lemma is_top_example_3:
  "is_top [example_alert HIGH 1, example_alert CRITICAL 2, example_alert CRITICAL 0] x
     \<longleftrightarrow> x = example_alert CRITICAL 0"
  by (auto simp: is_top_def AlertComparator_def example_alert_def Alert_ctor_def)

lemma is_top_example_2:
  "is_top [example_alert HIGH 1, example_alert CRITICAL 2] x \<longleftrightarrow> x = example_alert CRITICAL 2"
  by (auto simp: is_top_def AlertComparator_def example_alert_def Alert_ctor_def)

lemma is_top_example_1:
  "is_top [example_alert HIGH 1] x \<longleftrightarrow> x = example_alert HIGH 1"
  by (auto simp: is_top_def AlertComparator_def example_alert_def Alert_ctor_def)

lemma example_alert_neq [simp]:
  "example_alert CRITICAL 0 \<noteq> example_alert HIGH 1"
  "example_alert CRITICAL 0 \<noteq> example_alert CRITICAL 2"
  "example_alert CRITICAL 2 \<noteq> example_alert HIGH 1"
  by (simp_all add: example_alert_def Alert_ctor_def)

lemma example_dequeue_order:
  assumes run: "processAllAlerts tpm (ap, out) fin" and q: "alertQueue ap = example_queue"
  shows "handled_alerts (snd fin)
    = handled_alerts out
      @ [example_alert CRITICAL 0, example_alert CRITICAL 2, example_alert HIGH 1]"
proof -
  from processAllAlerts_step [OF run] q obtain t1 x1 where
    "is_top (alertQueue ap) x1" and
    r1: "processAllAlerts tpm
           (ap\<lparr>alertQueue := remove1 x1 (alertQueue ap),
               totalAlertsProcessed := totalAlertsProcessed ap + 1\<rparr>,
            out @ handleAlert tpm t1 x1) fin"
    by (auto simp: example_queue_def)
  then have x1: "x1 = example_alert CRITICAL 0"
    by (simp add: q example_queue_def is_top_example_3)
  let ?ap1 = "ap\<lparr>alertQueue := remove1 x1 (alertQueue ap),
               totalAlertsProcessed := totalAlertsProcessed ap + 1\<rparr>"
  have q1: "alertQueue ?ap1 = [example_alert HIGH 1, example_alert CRITICAL 2]"
    by (simp add: q x1 example_queue_def)
  from processAllAlerts_step [OF r1] q1 obtain t2 x2 where
    "is_top (alertQueue ?ap1) x2" and
    r2: "processAllAlerts tpm
           (?ap1\<lparr>alertQueue := remove1 x2 (alertQueue ?ap1),
               totalAlertsProcessed := totalAlertsProcessed ?ap1 + 1\<rparr>,
            (out @ handleAlert tpm t1 x1) @ handleAlert tpm t2 x2) fin"
    by auto
  then have x2: "x2 = example_alert CRITICAL 2"
    by (simp only: q1 is_top_example_2)
  let ?ap2 = "?ap1\<lparr>alertQueue := remove1 x2 (alertQueue ?ap1),
               totalAlertsProcessed := totalAlertsProcessed ?ap1 + 1\<rparr>"
  have q2: "alertQueue ?ap2 = [example_alert HIGH 1]"
    using q1 by (simp add: x2)
  from processAllAlerts_step [OF r2] q2 obtain t3 x3 where
    "is_top (alertQueue ?ap2) x3" and
    r3: "processAllAlerts tpm
           (?ap2\<lparr>alertQueue := remove1 x3 (alertQueue ?ap2),
               totalAlertsProcessed := totalAlertsProcessed ?ap2 + 1\<rparr>,
            ((out @ handleAlert tpm t1 x1) @ handleAlert tpm t2 x2) @ handleAlert tpm t3 x3) fin"
    by auto
  then have x3: "x3 = example_alert HIGH 1"
    by (simp only: q2 is_top_example_1)
  let ?ap3 = "?ap2\<lparr>alertQueue := remove1 x3 (alertQueue ?ap2),
               totalAlertsProcessed := totalAlertsProcessed ?ap2 + 1\<rparr>"
  have q3: "alertQueue ?ap3 = []"
    using q2 by (simp add: x3)
  from processAllAlerts_done [OF r3 q3]
  have "snd fin = ((out @ handleAlert tpm t1 x1) @ handleAlert tpm t2 x2) @ handleAlert tpm t3 x3"
    by simp
  then show ?thesis
    by (simp add: handled_alerts_append handleAlert_def x1 x2 x3)
qed

text \<open>
  Claim C4. Whatever alerts are queued, draining the queue hands them to \<open>handleAlert\<close>
  in the order of the specification (priority ascending, then \<open>createdAt\<close> ascending);
  every queued alert is handled once and the queue ends empty; the drain always
  completes; and the alerts \<open>{HIGH, 1}\<close>, \<open>{CRITICAL, 2}\<close>, \<open>{CRITICAL, 0}\<close> are handled as
  \<open>{CRITICAL, 0}\<close>, \<open>{CRITICAL, 2}\<close>, \<open>{HIGH, 1}\<close>.
\<close>

theorem alertQueue_dequeue_order:
  "(processAllAlerts tpm (ap, out) (ap', out') \<longrightarrow>
      (\<exists>evs. out' = out @ evs
         \<and> sorted_wrt precedes (handled_alerts evs)
         \<and> mset (handled_alerts evs) = mset (alertQueue ap))
      \<and> alertQueue ap' = [])
   \<and> (\<exists>fin. processAllAlerts tpm (ap, out) fin)
   \<and> (alertQueue ap = example_queue \<and> processAllAlerts tpm (ap, out) (ap', out') \<longrightarrow>
        handled_alerts out'
        = handled_alerts out
          @ [example_alert CRITICAL 0, example_alert CRITICAL 2, example_alert HIGH 1])"
  using processAllAlerts_order [of tpm "(ap, out)" "(ap', out')"]
    processAllAlerts_total [of tpm ap out]
    example_dequeue_order [of tpm ap out "(ap', out')"]
  by auto

lemma example_first_step:
  "processNextAlert 1 5 (example_processor example_queue 0, [])
      (example_processor [example_alert HIGH 1, example_alert CRITICAL 2] 1,
       [Handled (example_alert CRITICAL 0) 5 True])"
  using queue_pop [where ap = "example_processor example_queue 0"
      and alert = "example_alert CRITICAL 0" and tpm = 1 and now = 5 and out = "[]"]
  by (simp add: example_processor_def example_queue_def is_top_example_3 handleAlert_def
      responseTime_def duration_cast_ms_def checkResponseTimeRequirement_def
      example_alert_sel)

lemma example_run:
  "processAllAlerts 1 (example_processor example_queue 0, [])
     (example_processor [] 3,
      [Handled (example_alert CRITICAL 0) 5 True,
       Handled (example_alert CRITICAL 2) 3 True,
       Handled (example_alert HIGH 1) 4 True])"
proof -
  note s1 = example_first_step
  have s2: "processNextAlert 1 5
      (example_processor [example_alert HIGH 1, example_alert CRITICAL 2] 1,
       [Handled (example_alert CRITICAL 0) 5 True])
      (example_processor [example_alert HIGH 1] 2,
       [Handled (example_alert CRITICAL 0) 5 True, Handled (example_alert CRITICAL 2) 3 True])"
    using queue_pop [where ap = "example_processor [example_alert HIGH 1, example_alert CRITICAL 2] 1"
        and alert = "example_alert CRITICAL 2" and tpm = 1 and now = 5
        and out = "[Handled (example_alert CRITICAL 0) 5 True]"]
    by (simp add: example_processor_def is_top_example_2 handleAlert_def
        responseTime_def duration_cast_ms_def checkResponseTimeRequirement_def
        example_alert_sel)
  have s3: "processNextAlert 1 5
      (example_processor [example_alert HIGH 1] 2,
       [Handled (example_alert CRITICAL 0) 5 True, Handled (example_alert CRITICAL 2) 3 True])
      (example_processor [] 3,
       [Handled (example_alert CRITICAL 0) 5 True, Handled (example_alert CRITICAL 2) 3 True,
        Handled (example_alert HIGH 1) 4 True])"
    using queue_pop [where ap = "example_processor [example_alert HIGH 1] 2"
        and alert = "example_alert HIGH 1" and tpm = 1 and now = 5
        and out = "[Handled (example_alert CRITICAL 0) 5 True, Handled (example_alert CRITICAL 2) 3 True]"]
    by (simp add: example_processor_def is_top_example_1 handleAlert_def
        responseTime_def duration_cast_ms_def checkResponseTimeRequirement_def
        example_alert_sel)
  have s4: "processAllAlerts 1 (example_processor [] 3,
       [Handled (example_alert CRITICAL 0) 5 True, Handled (example_alert CRITICAL 2) 3 True,
        Handled (example_alert HIGH 1) 4 True])
     (example_processor [] 3,
       [Handled (example_alert CRITICAL 0) 5 True, Handled (example_alert CRITICAL 2) 3 True,
        Handled (example_alert HIGH 1) 4 True])"
    by (rule loop_exit) (simp add: example_processor_def)
  have ne: "alertQueue (example_processor example_queue 0) \<noteq> []"
    "alertQueue (example_processor [example_alert HIGH 1, example_alert CRITICAL 2] 1) \<noteq> []"
    "alertQueue (example_processor [example_alert HIGH 1] 2) \<noteq> []"
    by (simp_all add: example_processor_def example_queue_def)
  show ?thesis
    by (rule loop_body [OF ne(1) s1], rule loop_body [OF ne(2) s2], rule loop_body [OF ne(3) s3],
        rule s4)
qed

theorem alertQueue_dequeue_order_witness:
  "processAllAlerts 1 (example_processor example_queue 0, [])
     (example_processor [] 3,
      [Handled (example_alert CRITICAL 0) 5 True,
       Handled (example_alert CRITICAL 2) 3 True,
       Handled (example_alert HIGH 1) 4 True])
   \<and> sorted_wrt precedes
        [example_alert CRITICAL 0, example_alert CRITICAL 2, example_alert HIGH 1]
   \<and> handled_alerts
        [Handled (example_alert CRITICAL 0) 5 True,
         Handled (example_alert CRITICAL 2) 3 True,
         Handled (example_alert HIGH 1) 4 True]
       = [example_alert CRITICAL 0, example_alert CRITICAL 2, example_alert HIGH 1]"
  using example_run
    alertQueue_dequeue_order [of 1 "example_processor example_queue 0" "[]" "example_processor [] 3"
      "[Handled (example_alert CRITICAL 0) 5 True,
       Handled (example_alert CRITICAL 2) 3 True,
       Handled (example_alert HIGH 1) 4 True]"]
  by auto

section \<open>Ingest of a reading\<close>

lemma processVitalReading_patients:
  "patients (processVitalReading t_alert t_trend reading s) pid =
     (if pid = r_patientId reading then map_option (addVitalReading reading) (patients s pid)
      else patients s pid)"
  by (simp add: processVitalReading_def Let_def split: option.splits prod.splits)



lemma processVitalReading_queue:
  assumes "patients s (r_patientId reading) = Some found"
  shows "alertQueue (alertProcessor (processVitalReading t_alert t_trend reading s)) =
     alertQueue (alertProcessor s)
     @ (if assessRisk (addVitalReading reading found) reading \<noteq> LOW
           \<and> \<not> isLikelyFalseAlarm
                (Alert_ctor t_alert (r_patientId reading) (assessRisk (addVitalReading reading found) reading)
                   (generateAlertMessage reading (assessRisk (addVitalReading reading found) reading))
                   (r_type reading))
                (getRecentReadings (addVitalReading reading found) (r_type reading) 10)
        then [Alert_ctor t_alert (r_patientId reading) (assessRisk (addVitalReading reading found) reading)
                (generateAlertMessage reading (assessRisk (addVitalReading reading found) reading))
                (r_type reading)]
        else [])
     @ (if detectTrend (addVitalReading reading found) (r_type reading)
        then [Alert_ctor t_trend (r_patientId reading) MEDIUM
                (''Concerning trend detected in '' @ vitalSignToString (r_type reading))
                (r_type reading)]
        else [])"
  using assms by (simp add: processVitalReading_def Let_def addAlert_def)


lemma addVitalReading_history:
  "vitalHistory (addVitalReading reading p) vital =
     (if vital = r_type reading
      then (if length (vitalHistory p vital) < 100 then vitalHistory p vital @ [reading]
            else tl (vitalHistory p vital @ [reading]))
      else vitalHistory p vital)"
  by (simp add: addVitalReading_def Let_def)

lemma addVitalReading_length:
  "length (vitalHistory p vital) \<le> 100 \<Longrightarrow> length (vitalHistory (addVitalReading reading p) vital) \<le> 100"
  by (auto simp: addVitalReading_history)

lemma addVitalReading_fields:
  "p_patientId (addVitalReading reading p) = p_patientId p"
  "p_name (addVitalReading reading p) = p_name p"
  "normalRanges (addVitalReading reading p) = normalRanges p"
  "currentRiskLevel (addVitalReading reading p) = currentRiskLevel p"
  by (simp_all add: addVitalReading_def Let_def)

lemma reachable_history_bounded:
  "reachable tpm s \<Longrightarrow> patients s pid = Some p \<Longrightarrow> length (vitalHistory p vital) \<le> 100"
proof (induction arbitrary: pid p rule: reachable.induct)
  case start
  then show ?case by (simp add: HospitalScheduler_ctor_def)
next
  case (add s pid' nm ag)
  then show ?case
    by (auto simp: addPatient_def Patient_ctor_def split: if_splits)
next
  case (ingest s t_alert t_trend reading)
  then show ?case
    by (auto simp: processVitalReading_patients addVitalReading_length split: if_splits)
next
  case (dispatch s now ap out)
  then show ?case by simp
qed

lemma reachable_risk_LOW:
  "reachable tpm s \<Longrightarrow> patients s pid = Some p \<Longrightarrow> currentRiskLevel p = LOW"
proof (induction arbitrary: pid p rule: reachable.induct)
  case start
  then show ?case by (simp add: HospitalScheduler_ctor_def)
next
  case (add s pid' nm ag)
  then show ?case
    by (auto simp: addPatient_def Patient_ctor_def split: if_splits)
next
  case (ingest s t_alert t_trend reading)
  then show ?case
    by (auto simp: processVitalReading_patients addVitalReading_fields split: if_splits)
next
  case (dispatch s now ap out)
  then show ?case by simp
qed

lemma reachable_heart_rates: "reachable tpm s \<Longrightarrow> reachable tpm (heart_rates vs s)"
  unfolding heart_rates_def
  by (induction vs arbitrary: s) (simp_all add: reachable.ingest)

lemma reachable_demo: "reachable tpm demo_scheduler"
  unfolding demo_scheduler_def by (intro reachable.add reachable.start)

lemma reachable_noisy: "reachable tpm noisy_scheduler"
  unfolding noisy_scheduler_def by (intro reachable_heart_rates reachable_demo)

lemma demo_scheduler_eval:
  "patients demo_scheduler = [1 \<mapsto> Patient_ctor 1 ''John Doe'' 45]"
  "alertProcessor demo_scheduler = AlertProcessor_ctor"
  "console demo_scheduler = []"
  by (simp_all add: demo_scheduler_def addPatient_def HospitalScheduler_ctor_def Patient_ctor_def)

lemma noisy_scheduler_eval:
  "noisy_scheduler = demo_scheduler
     \<lparr>patients := [1 \<mapsto> noisy_patient],
      alertProcessor := AlertProcessor_ctor
        \<lparr>alertQueue :=
           [Alert_ctor 0 1 HIGH ''Heart Rate reading: 130 (Priority: 2)'' HEART_RATE,
            Alert_ctor 0 1 HIGH ''Heart Rate reading: 130 (Priority: 2)'' HEART_RATE]\<rparr>\<rparr>"
  by (simp add: noisy_scheduler_def heart_rates_def demo_scheduler_def addPatient_def
      HospitalScheduler_ctor_def Patient_ctor_def processVitalReading_def Let_def
      VitalReading_ctor_def addVitalReading_def assessRisk_def isLikelyFalseAlarm_def
      getRecentReadings_def detectTrend_def addAlert_def generateAlertMessage_def
      to_string_def static_cast_int_def noisy_patient_def AlertProcessor_ctor_def Alert_ctor_def
      fun_upd_twist)

lemma noisy_scheduler_patient: "patients noisy_scheduler 1 = Some noisy_patient"
  by (simp add: noisy_scheduler_eval)






lemma demo_first_history:
  "vitalHistory (addVitalReading (VitalReading_ctor now HEART_RATE v 1) (Patient_ctor 1 nm ag))
     HEART_RATE = [VitalReading_ctor now HEART_RATE v 1]"
  by (simp add: addVitalReading_history VitalReading_ctor_sel Patient_ctor_def)



lemma msg200: "generateAlertMessage (VitalReading_ctor 0 HEART_RATE 200 1) CRITICAL
   = ''Heart Rate reading: 200 (Priority: 1)''"
  by (simp add: generateAlertMessage_def VitalReading_ctor_sel to_string_def static_cast_int_def)

lemma demo_critical:
  "assessRisk (addVitalReading (VitalReading_ctor 0 HEART_RATE 200 1) (Patient_ctor 1 ''John Doe'' 45))
     (VitalReading_ctor 0 HEART_RATE 200 1) = CRITICAL"
  by (simp add: assessRisk_def VitalReading_ctor_sel)

lemma demo_critical_queue:
  "alertQueue (alertProcessor
      (processVitalReading 0 0 (VitalReading_ctor 0 HEART_RATE 200 1) demo_scheduler))
     = [Alert_ctor 0 1 CRITICAL ''Heart Rate reading: 200 (Priority: 1)'' HEART_RATE]"
  by (simp add: processVitalReading_queue [where found = "Patient_ctor 1 ''John Doe'' 45"]
      VitalReading_ctor_sel demo_scheduler_eval demo_critical msg200 isLikelyFalseAlarm_def
      getRecentReadings_def detectTrend_def demo_first_history AlertProcessor_ctor_def)

section \<open>Suppressed candidates\<close>




section \<open>Readings of an unknown patient\<close>





text \<open>
  Claim C10. For every ingest of a reading whose patient is not registered, the whole
  state is unchanged: no history window, no queued alert, no counter and no output
  changes.
\<close>

theorem unregistered_ingest_noop:
  "patients s (r_patientId reading) = None \<Longrightarrow> processVitalReading t_alert t_trend reading s = s"
  by (simp add: processVitalReading_def)

theorem unregistered_ingest_noop_witness:
  "patients demo_scheduler 7 = None
   \<and> processVitalReading 0 0 (VitalReading_ctor 0 HEART_RATE 200 7) demo_scheduler = demo_scheduler"
  using unregistered_ingest_noop [of demo_scheduler "VitalReading_ctor 0 HEART_RATE 200 7" 0 0]
  by (simp add: VitalReading_ctor_sel demo_scheduler_eval)

section \<open>History window\<close>

text \<open>
  Claim C7. In every reachable state every history window of every patient has at most
  100 readings. An ingest replaces the patient of the reading by \<open>addVitalReading\<close> of it
  and leaves the other patients alone; \<open>addVitalReading\<close> appends the reading to the
  window of its vital sign when that has fewer than 100 readings, drops exactly the oldest
  reading and appends the new one, in order, when it has 100, and leaves the windows of
  the other vital signs alone.
\<close>

theorem history_window_bounded:
  "(reachable tpm s \<and> patients s pid = Some p \<longrightarrow> length (vitalHistory p vital) \<le> 100)
   \<and> (patients s (r_patientId reading) = Some found \<longrightarrow>
        patients (processVitalReading t_alert t_trend reading s) (r_patientId reading)
          = Some (addVitalReading reading found))
   \<and> (pid \<noteq> r_patientId reading \<longrightarrow>
        patients (processVitalReading t_alert t_trend reading s) pid = patients s pid)
   \<and> (length (vitalHistory found (r_type reading)) < 100 \<longrightarrow>
        vitalHistory (addVitalReading reading found) (r_type reading)
          = vitalHistory found (r_type reading) @ [reading])
   \<and> (length (vitalHistory found (r_type reading)) = 100 \<longrightarrow>
        vitalHistory (addVitalReading reading found) (r_type reading)
          = tl (vitalHistory found (r_type reading)) @ [reading])
   \<and> (vital \<noteq> r_type reading \<longrightarrow>
        vitalHistory (addVitalReading reading found) vital = vitalHistory found vital)"
proof -
  have evict: "tl (vitalHistory found (r_type reading) @ [reading])
      = tl (vitalHistory found (r_type reading)) @ [reading]"
    if "length (vitalHistory found (r_type reading)) = 100"
    using that by (cases "vitalHistory found (r_type reading)") simp_all
  show ?thesis
    using reachable_history_bounded [of tpm s pid p vital] evict
    by (auto simp: processVitalReading_patients addVitalReading_history)
qed

theorem history_window_bounded_witness:
  "reachable 1000000 noisy_scheduler
   \<and> patients noisy_scheduler 1 = Some noisy_patient
   \<and> length (vitalHistory noisy_patient HEART_RATE) = 4
   \<and> patients (processVitalReading 0 0 (VitalReading_ctor 0 HEART_RATE 125 1) noisy_scheduler) 1
     = Some (addVitalReading (VitalReading_ctor 0 HEART_RATE 125 1) noisy_patient)
   \<and> vitalHistory (addVitalReading (VitalReading_ctor 0 HEART_RATE 125 1) noisy_patient) HEART_RATE
     = vitalHistory noisy_patient HEART_RATE @ [VitalReading_ctor 0 HEART_RATE 125 1]
   \<and> length (vitalHistory full_patient HEART_RATE) = 100
   \<and> vitalHistory (addVitalReading (VitalReading_ctor 9 HEART_RATE 80 1) full_patient) HEART_RATE
     = replicate 99 (VitalReading_ctor 0 HEART_RATE 75 1) @ [VitalReading_ctor 9 HEART_RATE 80 1]
   \<and> vitalHistory (addVitalReading (VitalReading_ctor 9 HEART_RATE 80 1) full_patient) TEMPERATURE
     = []
   \<and> patients (processVitalReading 0 0 (VitalReading_ctor 0 HEART_RATE 125 1) noisy_scheduler) 7
     = None"
proof -
  have absent: "patients noisy_scheduler 7 = None"
    by (simp add: noisy_scheduler_eval)
  have len: "length (vitalHistory noisy_patient HEART_RATE) = 4"
    by (simp add: noisy_patient_def)
  have full: "length (vitalHistory full_patient HEART_RATE) = 100"
    by (simp add: full_patient_def)
  have tl_full: "tl (vitalHistory full_patient HEART_RATE)
      = replicate 99 (VitalReading_ctor 0 HEART_RATE 75 1)"
    by (simp add: full_patient_def tl_replicate)
  have other: "vitalHistory full_patient TEMPERATURE = []"
    by (simp add: full_patient_def)
  show ?thesis
    using reachable_noisy [of 1000000] noisy_scheduler_patient len full
      history_window_bounded [of 1000000 noisy_scheduler 1 noisy_patient HEART_RATE
        "VitalReading_ctor 0 HEART_RATE 125 1" noisy_patient 0 0]
      history_window_bounded [of 1000000 noisy_scheduler 1 noisy_patient TEMPERATURE
        "VitalReading_ctor 9 HEART_RATE 80 1" full_patient 0 0]
      history_window_bounded [of 1000000 noisy_scheduler 7 noisy_patient HEART_RATE
        "VitalReading_ctor 0 HEART_RATE 125 1" noisy_patient 0 0]
    by (simp add: VitalReading_ctor_sel tl_full other absent)
qed

section \<open>Response time requirement\<close>

lemma sdiv_ticks: "0 < tpm \<Longrightarrow> 0 \<le> ms \<Longrightarrow> (ms * tpm) sdiv tpm = (ms::int)"
  by (cases "ms = 0") (simp_all add: signed_divide_int_def sgn_mult abs_mult)

lemma checkResponseTimeRequirement_budget:
  "checkResponseTimeRequirement p ms = (ms \<le> sla_budget_ms p)"
  by (cases p) (simp_all add: checkResponseTimeRequirement_def sla_budget_ms_def)

text \<open>
  Claim C8. The alert that is dequeued is reported within its time requirement exactly
  when its response time, the time since \<open>createdAt\<close> in whole milliseconds as
  \<^verbatim>\<open>handleAlert\<close> computes it, is at most the budget of its priority: 2000 ms for
  CRITICAL, 30000 ms for HIGH, 300000 ms for MEDIUM, 3600000 ms for LOW. A CRITICAL alert
  dequeued 3000 ms after its creation is a breach, one dequeued after 1500 ms is
  compliant.
\<close>

theorem sla_classification:
  "checkResponseTimeRequirement p ms = (ms \<le> sla_budget_ms p)
   \<and> sla_budget_ms CRITICAL = 2000 \<and> sla_budget_ms HIGH = 30000
   \<and> sla_budget_ms MEDIUM = 300000 \<and> sla_budget_ms LOW = 3600000
   \<and> handleAlert tpm now alert
     = [Handled alert (responseTime tpm now alert)
          (responseTime tpm now alert \<le> sla_budget_ms (a_priority alert))]
   \<and> (0 < tpm \<and> 0 \<le> ms \<longrightarrow> responseTime tpm (a_createdAt alert + ms * tpm) alert = ms)
   \<and> (0 < tpm \<and> a_priority alert = CRITICAL \<longrightarrow>
        handleAlert tpm (a_createdAt alert + 3000 * tpm) alert = [Handled alert 3000 False]
        \<and> handleAlert tpm (a_createdAt alert + 1500 * tpm) alert = [Handled alert 1500 True])
   \<and> (processNextAlert tpm now (ap, out) (ap', out') \<and> alertQueue ap \<noteq> [] \<longrightarrow>
        (\<exists>popped. is_top (alertQueue ap) popped
           \<and> out' = out @ [Handled popped (responseTime tpm now popped)
                 (responseTime tpm now popped \<le> sla_budget_ms (a_priority popped))]))"
proof -
  have h: "handleAlert tpm now a
     = [Handled a (responseTime tpm now a) (responseTime tpm now a \<le> sla_budget_ms (a_priority a))]"
    for tpm now a
    by (simp add: handleAlert_def checkResponseTimeRequirement_budget)
  have rt: "responseTime tpm (a_createdAt alert + ms * tpm) alert = ms"
    if "0 < tpm" "0 \<le> ms" for ms
    using that by (simp add: responseTime_def duration_cast_ms_def sdiv_ticks)
  have ex: "handleAlert tpm (a_createdAt alert + 3000 * tpm) alert = [Handled alert 3000 False]
        \<and> handleAlert tpm (a_createdAt alert + 1500 * tpm) alert = [Handled alert 1500 True]"
    if "0 < tpm" "a_priority alert = CRITICAL"
    using that rt [of 3000] rt [of 1500] by (simp add: h sla_budget_ms_def)
  have pop: "\<exists>popped. is_top (alertQueue ap) popped
           \<and> out' = out @ [Handled popped (responseTime tpm now popped)
                 (responseTime tpm now popped \<le> sla_budget_ms (a_priority popped))]"
    if "processNextAlert tpm now (ap, out) (ap', out')" "alertQueue ap \<noteq> []"
    using that by (auto elim!: processNextAlert.cases simp: h)
  show ?thesis
    using checkResponseTimeRequirement_budget [of p ms] h [of tpm now alert] rt ex pop
    by (simp add: sla_budget_ms_def)
qed

theorem sla_classification_witness:
  "handleAlert 1000000 3000000000 (example_alert CRITICAL 0)
     = [Handled (example_alert CRITICAL 0) 3000 False]
   \<and> handleAlert 1000000 1500000000 (example_alert CRITICAL 0)
     = [Handled (example_alert CRITICAL 0) 1500 True]
   \<and> responseTime 1000000 2000000000 (example_alert CRITICAL 0) = 2000
   \<and> checkResponseTimeRequirement CRITICAL 2000
   \<and> \<not> checkResponseTimeRequirement CRITICAL 2001
   \<and> processNextAlert 1 5 (example_processor example_queue 0, [])
        (example_processor [example_alert HIGH 1, example_alert CRITICAL 2] 1,
         [Handled (example_alert CRITICAL 0) 5 True])
   \<and> alertQueue (example_processor example_queue 0) = example_queue
   \<and> (\<exists>popped. is_top example_queue popped
        \<and> [Handled (example_alert CRITICAL 0) 5 True]
          = [Handled popped (responseTime 1 5 popped)
               (responseTime 1 5 popped \<le> sla_budget_ms (a_priority popped))])"
proof -
  have q: "alertQueue (example_processor example_queue 0) = example_queue"
    by (simp add: example_processor_def)
  have ne: "example_queue \<noteq> []" by (simp add: example_queue_def)
  show ?thesis
    using sla_classification [of CRITICAL 2000 1000000 0 "example_alert CRITICAL 0"]
      sla_classification [of CRITICAL 2001 1000000 0 "example_alert CRITICAL 0"]
      sla_classification [of CRITICAL 2000 1 5 "example_alert CRITICAL 0"
        "example_processor example_queue 0" "[]"
        "example_processor [example_alert HIGH 1, example_alert CRITICAL 2] 1"
        "[Handled (example_alert CRITICAL 0) 5 True]"]
      example_first_step ne
    by (simp add: example_alert_sel q)
qed

section \<open>Stored risk level\<close>

text \<open>
  Claim C9 fails as it is stated. The heart-rate reading 200 of the registered patient 1
  admits a CRITICAL alert, which is not acknowledged: the aggregate risk of the patient
  is CRITICAL, and the stored risk level is LOW.
\<close>

theorem aggregate_risk_counterexample:
  "patients demo_scheduler 1 = Some (Patient_ctor 1 ''John Doe'' 45)
   \<and> alertQueue (alertProcessor
        (processVitalReading 0 0 (VitalReading_ctor 0 HEART_RATE 200 1) demo_scheduler))
     = [Alert_ctor 0 1 CRITICAL ''Heart Rate reading: 200 (Priority: 1)'' HEART_RATE]
   \<and> aggregate_risk 1 (alertQueue (alertProcessor
        (processVitalReading 0 0 (VitalReading_ctor 0 HEART_RATE 200 1) demo_scheduler)))
     = CRITICAL
   \<and> map_option currentRiskLevel
        (patients (processVitalReading 0 0 (VitalReading_ctor 0 HEART_RATE 200 1) demo_scheduler) 1)
     = Some LOW"
  by (simp add: demo_critical_queue aggregate_risk_def Alert_ctor_def
      processVitalReading_patients VitalReading_ctor_sel demo_scheduler_eval
      addVitalReading_fields)
     (simp add: Patient_ctor_def)

text \<open>
  Claim C9, amended. An ingest never changes the stored risk level of a patient, whatever
  alerts it admits, and in every reachable state every registered patient has the risk
  level LOW of its construction: the stored level does not follow the alerts of the
  patient (the program has no operation that acknowledges an alert).
\<close>

theorem stored_risk_unchanged:
  "map_option currentRiskLevel (patients (processVitalReading t_alert t_trend reading s) pid)
     = map_option currentRiskLevel (patients s pid)
   \<and> (reachable tpm s \<and> patients s pid = Some p \<longrightarrow> currentRiskLevel p = LOW)"
  using reachable_risk_LOW [of tpm s pid p]
  by (cases "patients s pid") (auto simp: processVitalReading_patients addVitalReading_fields)

theorem stored_risk_unchanged_witness:
  "reachable 1000000 (processVitalReading 0 0 (VitalReading_ctor 0 HEART_RATE 200 1) demo_scheduler)
   \<and> patients (processVitalReading 0 0 (VitalReading_ctor 0 HEART_RATE 200 1) demo_scheduler) 1
     = Some (addVitalReading (VitalReading_ctor 0 HEART_RATE 200 1) (Patient_ctor 1 ''John Doe'' 45))
   \<and> currentRiskLevel
        (addVitalReading (VitalReading_ctor 0 HEART_RATE 200 1) (Patient_ctor 1 ''John Doe'' 45))
     = LOW"
proof -
  have r: "reachable 1000000
      (processVitalReading 0 0 (VitalReading_ctor 0 HEART_RATE 200 1) demo_scheduler)"
    by (intro reachable.ingest reachable_demo)
  have p: "patients (processVitalReading 0 0 (VitalReading_ctor 0 HEART_RATE 200 1) demo_scheduler) 1
     = Some (addVitalReading (VitalReading_ctor 0 HEART_RATE 200 1) (Patient_ctor 1 ''John Doe'' 45))"
    by (simp add: processVitalReading_patients VitalReading_ctor_sel demo_scheduler_eval)
  show ?thesis
    using r p
      stored_risk_unchanged [of 0 0 "VitalReading_ctor 0 HEART_RATE 200 1" demo_scheduler 1
        1000000 "addVitalReading (VitalReading_ctor 0 HEART_RATE 200 1) (Patient_ctor 1 ''John Doe'' 45)"]
      stored_risk_unchanged [of 0 0 "VitalReading_ctor 0 HEART_RATE 200 1"
        "processVitalReading 0 0 (VitalReading_ctor 0 HEART_RATE 200 1) demo_scheduler" 1
        1000000 "addVitalReading (VitalReading_ctor 0 HEART_RATE 200 1) (Patient_ctor 1 ''John Doe'' 45)"]
    by simp
qed

end
